theory Spec2Isabelle
  imports Complex_Main "HOL-Library.Word"
begin

section \<open>Shallow embedding of expr.h\<close>

subsection \<open>Values of type double\<close>

text \<open>
  The C++ type \<open>double\<close> is modelled by its IEEE-754 classes: a finite value, the two
  infinities and NaN. A finite value is a real number. An operation on finite values
  returns its exact result when that is at most \<open>DBL_MAX\<close> in magnitude, and overflows
  to the infinity of its sign otherwise. Rounding, the loss of precision below
  \<open>DBL_MIN\<close> and the sign of zero are not represented, and signalling and quiet NaN are
  one value. The special cases of the arithmetic operators and of \<open>pow\<close> follow
  IEEE-754 and Annex F of the C standard.
\<close>

datatype double = Finite real | PosInf | NegInf | NaN

definition DBL_MAX :: real where
  "DBL_MAX = 2 ^ 1024 - 2 ^ 971"


definition overflow :: "real \<Rightarrow> double" where
  "overflow r = (if DBL_MAX < r then PosInf else if r < - DBL_MAX then NegInf else Finite r)"

definition inf_of_sign :: "real \<Rightarrow> double" where
  "inf_of_sign s = (if 0 < s then PosInf else if s < 0 then NegInf else NaN)"

fun dneg :: "double \<Rightarrow> double" where
  "dneg (Finite a) = Finite (- a)"
| "dneg PosInf = NegInf"
| "dneg NegInf = PosInf"
| "dneg NaN = NaN"

fun dadd :: "double \<Rightarrow> double \<Rightarrow> double" where
  "dadd (Finite a) (Finite b) = overflow (a + b)"
| "dadd NaN _ = NaN"
| "dadd _ NaN = NaN"
| "dadd PosInf NegInf = NaN"
| "dadd NegInf PosInf = NaN"
| "dadd PosInf _ = PosInf"
| "dadd NegInf _ = NegInf"
| "dadd _ PosInf = PosInf"
| "dadd _ NegInf = NegInf"

definition dsub :: "double \<Rightarrow> double \<Rightarrow> double" where
  "dsub a b = dadd a (dneg b)"

fun dsign :: "double \<Rightarrow> real" where
  "dsign (Finite a) = sgn a"
| "dsign PosInf = 1"
| "dsign NegInf = - 1"
| "dsign NaN = 0"

fun dmul :: "double \<Rightarrow> double \<Rightarrow> double" where
  "dmul (Finite a) (Finite b) = overflow (a * b)"
| "dmul NaN _ = NaN"
| "dmul _ NaN = NaN"
| "dmul a b = inf_of_sign (dsign a * dsign b)"

fun ddiv :: "double \<Rightarrow> double \<Rightarrow> double" where
  "ddiv (Finite a) (Finite b) = (if b = 0 then inf_of_sign a else overflow (a / b))"
| "ddiv NaN _ = NaN"
| "ddiv _ NaN = NaN"
| "ddiv (Finite a) _ = Finite 0"
| "ddiv a (Finite b) = inf_of_sign (dsign a * (if b < 0 then - 1 else 1))"
| "ddiv _ _ = NaN"

definition is_odd_integer :: "real \<Rightarrow> bool" where
  "is_odd_integer y = (y \<in> \<int> \<and> odd \<lfloor>y\<rfloor>)"

definition pow_finite :: "real \<Rightarrow> real \<Rightarrow> double" where
  "pow_finite x y =
     (if y \<in> \<int> then
        (if 0 \<le> y then overflow (x ^ nat \<lfloor>y\<rfloor>)
         else if x = 0 then PosInf
         else overflow (1 / x ^ nat \<lfloor>- y\<rfloor>))
      else if 0 < x then overflow (x powr y)
      else if x = 0 then (if 0 < y then Finite 0 else PosInf)
      else NaN)"

fun dpow :: "double \<Rightarrow> double \<Rightarrow> double" where
  "dpow x (Finite y) =
     (if y = 0 then Finite 1
      else case x of
        Finite a \<Rightarrow> pow_finite a y
      | PosInf \<Rightarrow> (if y < 0 then Finite 0 else PosInf)
      | NegInf \<Rightarrow> (if y < 0 then Finite 0
                   else if is_odd_integer y then NegInf else PosInf)
      | NaN \<Rightarrow> NaN)"
| "dpow x NaN = (if x = Finite 1 then Finite 1 else NaN)"
| "dpow x PosInf =
     (case x of
        Finite a \<Rightarrow> (if \<bar>a\<bar> = 1 then Finite 1 else if \<bar>a\<bar> < 1 then Finite 0 else PosInf)
      | NaN \<Rightarrow> NaN
      | _ \<Rightarrow> PosInf)"
| "dpow x NegInf =
     (case x of
        Finite a \<Rightarrow> (if \<bar>a\<bar> = 1 then Finite 1 else if \<bar>a\<bar> < 1 then PosInf else Finite 0)
      | NaN \<Rightarrow> NaN
      | _ \<Rightarrow> Finite 0)"

text \<open>The unary functions of \<open><cmath>\<close> used by the dispatch entries.\<close>

fun lift_real :: "(real \<Rightarrow> real) \<Rightarrow> double \<Rightarrow> double" where
  "lift_real f (Finite a) = Finite (f a)"
| "lift_real f _ = NaN"

definition c_sin :: "double \<Rightarrow> double" where
  "c_sin = lift_real sin"

definition c_cos :: "double \<Rightarrow> double" where
  "c_cos = lift_real cos"

fun c_tan :: "double \<Rightarrow> double" where
  "c_tan (Finite a) = overflow (tan a)"
| "c_tan _ = NaN"

fun c_sinh :: "double \<Rightarrow> double" where
  "c_sinh (Finite a) = overflow (sinh a)"
| "c_sinh x = x"

fun c_cosh :: "double \<Rightarrow> double" where
  "c_cosh (Finite a) = overflow (cosh a)"
| "c_cosh NaN = NaN"
| "c_cosh _ = PosInf"

fun c_tanh :: "double \<Rightarrow> double" where
  "c_tanh (Finite a) = Finite (tanh a)"
| "c_tanh PosInf = Finite 1"
| "c_tanh NegInf = Finite (- 1)"
| "c_tanh NaN = NaN"

fun c_log_base :: "real \<Rightarrow> double \<Rightarrow> double" where
  "c_log_base b (Finite a) =
     (if 0 < a then Finite (log b a) else if a = 0 then NegInf else NaN)"
| "c_log_base b PosInf = PosInf"
| "c_log_base b _ = NaN"

fun c_exp :: "double \<Rightarrow> double" where
  "c_exp (Finite a) = overflow (exp a)"
| "c_exp PosInf = PosInf"
| "c_exp NegInf = Finite 0"
| "c_exp NaN = NaN"

fun c_sqrt :: "double \<Rightarrow> double" where
  "c_sqrt (Finite a) = (if 0 \<le> a then Finite (sqrt a) else NaN)"
| "c_sqrt PosInf = PosInf"
| "c_sqrt _ = NaN"

text \<open>
  The conversion \<open>(int)x\<close> truncates towards zero. It is undefined in C++ when the
  truncated value is not an \<open>int\<close> (also for NaN and the infinities): \<open>None\<close>.
\<close>

definition int_cast :: "double \<Rightarrow> int option" where
  "int_cast x =
     (case x of
        Finite r \<Rightarrow>
          (let t = (if 0 \<le> r then \<lfloor>r\<rfloor> else \<lceil>r\<rceil>)
           in if - 2147483648 \<le> t \<and> t \<le> 2147483647 then Some t else None)
      | _ \<Rightarrow> None)"

text \<open>
  \<open>ModulusFunction::Exec\<close> calls \<open>abs\<close> without a namespace, and \<open>expr.h\<close> includes no
  header that declares an \<open>abs\<close> for \<open>double\<close> in the global namespace: the function in
  scope is \<open>int abs(int)\<close> of the C library. The argument is converted to \<open>int\<close> and the
  result back to \<open>double\<close>. \<open>None\<close> is a call whose conversion is undefined or whose
  argument is the least \<open>int\<close>, of which \<open>abs\<close> is undefined.
\<close>

definition c_abs :: "double \<Rightarrow> double option" where
  "c_abs x =
     (case int_cast x of
        None \<Rightarrow> None
      | Some i \<Rightarrow> if i = - 2147483648 then None else Some (Finite (of_int \<bar>i\<bar>)))"

text \<open>\<open>std::numbers::e\<close> and \<open>std::numbers::pi\<close>.\<close>

definition numbers_e :: double where
  "numbers_e = Finite (exp 1)"

definition numbers_pi :: double where
  "numbers_pi = Finite pi"

subsection \<open>The dispatch entries (subclasses of \<open>Function\<close>)\<close>

datatype Function =
    SineFunction | CosineFunction | TangentFunction
  | CotangentFunction | SecantFunction | CosecantFunction
  | HyperbolicSineFunction | HyperbolicCosineFunction | HyperbolicTangentFunction
  | HyperbolicCotangentFunction | HyperbolicSecantFunction | HyperbolicCosecantFunction
  | Base10LogarithmFunction | NaturalLogarithmFunction | ExponentialFunction
  | SquareRootFunction | ModulusFunction

fun GetExpressionID :: "Function \<Rightarrow> string" where
  "GetExpressionID SineFunction = ''sin''"
| "GetExpressionID CosineFunction = ''cos''"
| "GetExpressionID TangentFunction = ''tan''"
| "GetExpressionID CotangentFunction = ''cot''"
| "GetExpressionID SecantFunction = ''sec''"
| "GetExpressionID CosecantFunction = ''csc''"
| "GetExpressionID HyperbolicSineFunction = ''sinh''"
| "GetExpressionID HyperbolicCosineFunction = ''cosh''"
| "GetExpressionID HyperbolicTangentFunction = ''tanh''"
| "GetExpressionID HyperbolicCotangentFunction = ''coth''"
| "GetExpressionID HyperbolicSecantFunction = ''sech''"
| "GetExpressionID HyperbolicCosecantFunction = ''csch''"
| "GetExpressionID Base10LogarithmFunction = ''log''"
| "GetExpressionID NaturalLogarithmFunction = ''ln''"
| "GetExpressionID ExponentialFunction = ''exp''"
| "GetExpressionID SquareRootFunction = ''sqrt''"
| "GetExpressionID ModulusFunction = ''abs''"

text \<open>\<open>Exec\<close> returns \<open>None\<close> where the call of \<open>abs\<close> is undefined.\<close>

fun Exec :: "Function \<Rightarrow> double \<Rightarrow> double option" where
  "Exec SineFunction x = Some (c_sin x)"
| "Exec CosineFunction x = Some (c_cos x)"
| "Exec TangentFunction x = Some (c_tan x)"
| "Exec CotangentFunction x = Some (ddiv (c_cos x) (c_sin x))"
| "Exec SecantFunction x = Some (ddiv (Finite 1) (c_cos x))"
| "Exec CosecantFunction x = Some (ddiv (Finite 1) (c_sin x))"
| "Exec HyperbolicSineFunction x = Some (c_sinh x)"
| "Exec HyperbolicCosineFunction x = Some (c_cosh x)"
| "Exec HyperbolicTangentFunction x = Some (c_tanh x)"
| "Exec HyperbolicCotangentFunction x = Some (ddiv (c_cosh x) (c_sinh x))"
| "Exec HyperbolicSecantFunction x = Some (ddiv (Finite 1) (c_cosh x))"
| "Exec HyperbolicCosecantFunction x = Some (ddiv (Finite 1) (c_sinh x))"
| "Exec Base10LogarithmFunction x = Some (c_log_base 10 x)"
| "Exec NaturalLogarithmFunction x = Some (c_log_base (exp 1) x)"
| "Exec ExponentialFunction x = Some (c_exp x)"
| "Exec SquareRootFunction x = Some (c_sqrt x)"
| "Exec ModulusFunction x = c_abs x"

subsection \<open>The registry (class \<open>Configuration\<close>)\<close>

text \<open>
  The two \<open>std::unordered_map\<close>s are association lists with at most one entry per key;
  \<open>find\<close> is \<open>map_of\<close>. The iteration order of an unordered map is unspecified; the list
  keeps the order of insertion.
\<close>

record Configuration =
  s_Functions :: "(string \<times> Function) list"
  s_Constants :: "(string \<times> double) list"
  s_Init :: bool

definition initial_Configuration :: Configuration where
  "initial_Configuration = \<lparr> s_Functions = [], s_Constants = [], s_Init = False \<rparr>"

fun assign :: "'k \<Rightarrow> 'v \<Rightarrow> ('k \<times> 'v) list \<Rightarrow> ('k \<times> 'v) list" where
  "assign k v [] = [(k, v)]"
| "assign k v ((k', v') # kvs) =
     (if k' = k then (k, v) # kvs else (k', v') # assign k v kvs)"

definition AddFunction :: "Function \<Rightarrow> string \<Rightarrow> Configuration \<Rightarrow> Configuration" where
  "AddFunction T expressionID c =
     (if map_of (s_Functions c) expressionID = None
      then c\<lparr> s_Functions := assign expressionID T (s_Functions c) \<rparr>
      else c)"

definition AddConstant :: "string \<Rightarrow> double \<Rightarrow> Configuration \<Rightarrow> Configuration" where
  "AddConstant name val c = c\<lparr> s_Constants := assign name val (s_Constants c) \<rparr>"

definition Init :: "Configuration \<Rightarrow> Configuration" where
  "Init c =
     (if s_Init c then c
      else
        (fold (\<lambda>step c'. step c')
          [AddFunction SineFunction ''sin'',
           AddFunction CosineFunction ''cos'',
           AddFunction TangentFunction ''tan'',
           AddFunction CotangentFunction ''cot'',
           AddFunction SecantFunction ''sec'',
           AddFunction CosecantFunction ''csc'',
           AddFunction HyperbolicSineFunction ''sinh'',
           AddFunction HyperbolicCosineFunction ''cosh'',
           AddFunction HyperbolicTangentFunction ''tanh'',
           AddFunction HyperbolicCotangentFunction ''coth'',
           AddFunction HyperbolicSecantFunction ''sech'',
           AddFunction HyperbolicCosecantFunction ''csch'',
           AddFunction Base10LogarithmFunction ''log'',
           AddFunction NaturalLogarithmFunction ''ln'',
           AddFunction SquareRootFunction ''sqrt'',
           AddFunction ModulusFunction ''abs'',
           AddConstant ''e'' numbers_e,
           AddConstant ''pi'' numbers_pi]
          c) \<lparr> s_Init := True \<rparr>)"

definition Shutdown :: "Configuration \<Rightarrow> Configuration" where
  "Shutdown c = c\<lparr> s_Functions := [], s_Init := False \<rparr>"

text \<open>\<open>GetFunction\<close> returns a pointer; \<open>None\<close> is \<open>nullptr\<close>.\<close>

definition GetFunction :: "Configuration \<Rightarrow> string \<Rightarrow> Function option" where
  "GetFunction c name = map_of (s_Functions c) name"

definition GetConstantValue :: "Configuration \<Rightarrow> string \<Rightarrow> double" where
  "GetConstantValue c name =
     (case map_of (s_Constants c) name of Some v \<Rightarrow> v | None \<Rightarrow> NaN)"

subsection \<open>Expression trees (subclasses of \<open>AstNode\<close>)\<close>

text \<open>
  One constructor per node class, with the class's fields. A \<open>ConstantNode\<close> stores
  its name and the value its constructor read from the registry. The constructor of the
  C++ \<open>FunctionNode\<close> looks the identifier up; when the lookup fails it keeps the null
  pointer and replaces the argument by an \<open>ErrorNode\<close>. Hence a node with a null
  \<open>m_Function\<close> always has an \<open>ErrorNode\<close> argument: this state is the
  constructor \<open>NullFunctionNode\<close>, which carries the message of that argument, and
  \<open>FunctionNode\<close> is a node with a resolved dispatch entry. The order of a
  \<open>DifferentialNode\<close> is a C++ \<open>int\<close>: a 32-bit word, read as a signed number by \<open>sint\<close>.
\<close>

datatype AstNode =
    ErrorNode string
  | NumberNode double
  | VariableNode string
  | ConstantNode string double
  | OperatorNode string AstNode AstNode
  | EqualsNode AstNode AstNode
  | DifferentialNode string string "32 word"
  | FunctionNode Function AstNode
  | NullFunctionNode string

definition new_FunctionNode :: "Configuration \<Rightarrow> string \<Rightarrow> AstNode \<Rightarrow> AstNode" where
  "new_FunctionNode c funcID argument =
     (case GetFunction c funcID of
        Some f \<Rightarrow> FunctionNode f argument
      | None \<Rightarrow> NullFunctionNode (''Could not find function '' @ funcID))"

definition new_ConstantNode :: "Configuration \<Rightarrow> string \<Rightarrow> AstNode" where
  "new_ConstantNode c constantName = ConstantNode constantName (GetConstantValue c constantName)"

text \<open>The \<open>dynamic_cast\<close>s of the macro \<open>sameType\<close>.\<close>

fun as_ErrorNode :: "AstNode \<Rightarrow> string option" where
  "as_ErrorNode (ErrorNode m) = Some m"
| "as_ErrorNode _ = None"

fun as_NumberNode :: "AstNode \<Rightarrow> double option" where
  "as_NumberNode (NumberNode v) = Some v"
| "as_NumberNode _ = None"

fun as_VariableNode :: "AstNode \<Rightarrow> string option" where
  "as_VariableNode (VariableNode n) = Some n"
| "as_VariableNode _ = None"

fun as_ConstantNode :: "AstNode \<Rightarrow> string option" where
  "as_ConstantNode (ConstantNode n v) = Some n"
| "as_ConstantNode _ = None"

fun as_OperatorNode :: "AstNode \<Rightarrow> (string \<times> AstNode \<times> AstNode) option" where
  "as_OperatorNode (OperatorNode op l r) = Some (op, l, r)"
| "as_OperatorNode _ = None"

fun is_FunctionNode :: "AstNode \<Rightarrow> bool" where
  "is_FunctionNode (FunctionNode f a) = True"
| "is_FunctionNode (NullFunctionNode m) = True"
| "is_FunctionNode _ = False"

definition is_ErrorNode :: "AstNode \<Rightarrow> bool" where
  "is_ErrorNode n = (as_ErrorNode n \<noteq> None)"

subsection \<open>Evaluate\<close>

definition apply_operator :: "string \<Rightarrow> double \<Rightarrow> double \<Rightarrow> double" where
  "apply_operator m_Operator leftVal rightVal =
     (if m_Operator = ''+'' then dadd leftVal rightVal
      else if m_Operator = ''-'' then dsub leftVal rightVal
      else if m_Operator = ''*'' then dmul leftVal rightVal
      else if m_Operator = ''/'' then ddiv leftVal rightVal
      else if m_Operator = ''^'' then dpow leftVal rightVal
      else NaN)"

text \<open>
  \<open>Evaluate\<close> returns \<open>None\<close> where the C++ code calls \<open>Exec\<close> through the null
  \<open>m_Function\<close> of a node whose identifier was not found, and where \<open>Exec\<close> does.
\<close>

fun Evaluate :: "(string \<rightharpoonup> double) \<Rightarrow> AstNode \<Rightarrow> double option" where
  "Evaluate variableValues (ErrorNode m) = Some NaN"
| "Evaluate variableValues (NumberNode v) = Some v"
| "Evaluate variableValues (VariableNode n) =
     (case variableValues n of Some v \<Rightarrow> Some v | None \<Rightarrow> Some NaN)"
| "Evaluate variableValues (ConstantNode n v) = Some v"
| "Evaluate variableValues (OperatorNode op l r) =
     (case Evaluate variableValues l of
        None \<Rightarrow> None
      | Some leftVal \<Rightarrow>
          (case Evaluate variableValues r of
             None \<Rightarrow> None
           | Some rightVal \<Rightarrow> Some (apply_operator op leftVal rightVal)))"
| "Evaluate variableValues (EqualsNode l r) = Some NaN"
| "Evaluate variableValues (DifferentialNode v w n) = Some NaN"
| "Evaluate variableValues (FunctionNode f a) =
     (case Evaluate variableValues a of
        None \<Rightarrow> None
      | Some argumentVal \<Rightarrow> Exec f argumentVal)"
| "Evaluate variableValues (NullFunctionNode m) = None"

subsection \<open>Differentiate\<close>

text \<open>
  The \<open>Differentiate\<close> member of each dispatch entry. Each of them calls
  \<open>argument->Differentiate(respectTo)\<close>; that derivative is the parameter
  \<open>dargument\<close> here, computed by the caller.
\<close>

fun Function_Differentiate :: "Configuration \<Rightarrow> Function \<Rightarrow> AstNode \<Rightarrow> AstNode \<Rightarrow> AstNode" where
  "Function_Differentiate c SineFunction argument dargument =
     OperatorNode ''*'' dargument (new_FunctionNode c ''cos'' argument)"
| "Function_Differentiate c CosineFunction argument dargument =
     OperatorNode ''*'' (NumberNode (Finite (- 1)))
       (OperatorNode ''*'' dargument (new_FunctionNode c ''sin'' argument))"
| "Function_Differentiate c TangentFunction argument dargument =
     OperatorNode ''*'' dargument
       (OperatorNode ''^'' (new_FunctionNode c ''sec'' argument) (NumberNode (Finite 2)))"
| "Function_Differentiate c CotangentFunction argument dargument =
     OperatorNode ''*'' (NumberNode (Finite (- 1)))
       (OperatorNode ''*'' dargument
         (OperatorNode ''^'' (new_FunctionNode c ''csc'' argument) (NumberNode (Finite 2))))"
| "Function_Differentiate c SecantFunction argument dargument =
     OperatorNode ''*'' dargument
       (OperatorNode ''*'' (new_FunctionNode c ''tan'' argument) (new_FunctionNode c ''sec'' argument))"
| "Function_Differentiate c CosecantFunction argument dargument =
     OperatorNode ''*'' (NumberNode (Finite (- 1)))
       (OperatorNode ''*'' dargument
         (OperatorNode ''*'' (new_FunctionNode c ''cot'' argument) (new_FunctionNode c ''csc'' argument)))"
| "Function_Differentiate c HyperbolicSineFunction argument dargument =
     OperatorNode ''*'' dargument (new_FunctionNode c ''cosh'' argument)"
| "Function_Differentiate c HyperbolicCosineFunction argument dargument =
     OperatorNode ''*'' dargument (new_FunctionNode c ''sinh'' argument)"
| "Function_Differentiate c HyperbolicTangentFunction argument dargument =
     OperatorNode ''*'' dargument
       (OperatorNode ''^'' (new_FunctionNode c ''sech'' argument) (NumberNode (Finite 2)))"
| "Function_Differentiate c HyperbolicCotangentFunction argument dargument =
     OperatorNode ''*'' (NumberNode (Finite (- 1)))
       (OperatorNode ''*'' dargument
         (OperatorNode ''^'' (new_FunctionNode c ''csch'' argument) (NumberNode (Finite 2))))"
| "Function_Differentiate c HyperbolicSecantFunction argument dargument =
     OperatorNode ''*'' (NumberNode (Finite (- 1)))
       (OperatorNode ''*'' dargument
         (OperatorNode ''*'' (new_FunctionNode c ''tanh'' argument) (new_FunctionNode c ''sech'' argument)))"
| "Function_Differentiate c HyperbolicCosecantFunction argument dargument =
     OperatorNode ''*'' (NumberNode (Finite (- 1)))
       (OperatorNode ''*'' dargument
         (OperatorNode ''*'' (new_FunctionNode c ''coth'' argument) (new_FunctionNode c ''csch'' argument)))"
| "Function_Differentiate c Base10LogarithmFunction argument dargument =
     OperatorNode ''/'' dargument
       (OperatorNode ''*'' (new_FunctionNode c ''ln'' (NumberNode (Finite 10))) argument)"
| "Function_Differentiate c NaturalLogarithmFunction argument dargument =
     OperatorNode ''/'' dargument argument"
| "Function_Differentiate c ExponentialFunction argument dargument =
     OperatorNode ''*'' dargument (new_FunctionNode c ''exp'' argument)"
| "Function_Differentiate c SquareRootFunction argument dargument =
     OperatorNode ''/'' dargument
       (OperatorNode ''*'' (NumberNode (Finite 2)) (new_FunctionNode c ''sqrt'' argument))"
| "Function_Differentiate c ModulusFunction argument dargument =
     OperatorNode ''/'' (OperatorNode ''*'' argument dargument) (new_FunctionNode c ''abs'' argument)"

text \<open>
  \<open>OperatorNode::Differentiate\<close> after its two error checks; \<open>diffLeft\<close> and
  \<open>diffRight\<close> are the derivatives of the children.
\<close>

definition Differentiate_quotient ::
  "Configuration \<Rightarrow> AstNode \<Rightarrow> AstNode \<Rightarrow> AstNode \<Rightarrow> AstNode \<Rightarrow> AstNode" where
  "Differentiate_quotient c m_Left m_Right diffLeft diffRight =
     (case as_NumberNode m_Left of
        Some numerator \<Rightarrow>
          OperatorNode ''*'' (NumberNode (Finite (- 1)))
            (OperatorNode ''*'' (NumberNode numerator)
              (OperatorNode ''/'' diffRight (OperatorNode ''^'' m_Right (NumberNode (Finite 2)))))
      | None \<Rightarrow>
     (case as_ConstantNode m_Left of
        Some numerator \<Rightarrow>
          OperatorNode ''*'' (NumberNode (Finite (- 1)))
            (OperatorNode ''*'' (new_ConstantNode c numerator)
              (OperatorNode ''/'' diffRight (OperatorNode ''^'' m_Right (NumberNode (Finite 2)))))
      | None \<Rightarrow>
     (case as_NumberNode m_Right of
        Some denominator \<Rightarrow> OperatorNode ''/'' diffLeft (NumberNode denominator)
      | None \<Rightarrow>
     (case as_ConstantNode m_Right of
        Some denominator \<Rightarrow> OperatorNode ''/'' diffLeft (new_ConstantNode c denominator)
      | None \<Rightarrow>
          OperatorNode ''/''
            (OperatorNode ''-''
              (OperatorNode ''*'' m_Right diffLeft)
              (OperatorNode ''*'' m_Left diffRight))
            (OperatorNode ''^'' m_Right (NumberNode (Finite 2)))))))"

definition Differentiate_power_general ::
  "Configuration \<Rightarrow> AstNode \<Rightarrow> AstNode \<Rightarrow> AstNode \<Rightarrow> AstNode \<Rightarrow> AstNode" where
  "Differentiate_power_general c m_Left m_Right diffLeft diffRight =
     (case as_NumberNode m_Left of
        Some numberNode \<Rightarrow>
          OperatorNode ''*'' (new_FunctionNode c ''ln'' (NumberNode numberNode))
            (OperatorNode ''*'' (OperatorNode ''^'' m_Left m_Right) diffRight)
      | None \<Rightarrow>
     (case as_ConstantNode m_Left of
        Some constant \<Rightarrow>
          OperatorNode ''*'' (new_FunctionNode c ''ln'' (new_ConstantNode c constant))
            (OperatorNode ''*'' (OperatorNode ''^'' m_Left m_Right) diffRight)
      | None \<Rightarrow>
          (let baseFraction = OperatorNode ''/'' diffLeft m_Left;
               lnBase = new_FunctionNode c ''ln'' m_Left;
               firstTerm = OperatorNode ''*'' m_Right baseFraction;
               secondTerm = OperatorNode ''*'' lnBase diffRight;
               result = OperatorNode ''+'' firstTerm secondTerm
           in OperatorNode ''*'' (OperatorNode ''^'' m_Left m_Right) result)))"

definition Differentiate_power ::
  "Configuration \<Rightarrow> AstNode \<Rightarrow> AstNode \<Rightarrow> AstNode \<Rightarrow> AstNode \<Rightarrow> AstNode" where
  "Differentiate_power c m_Left m_Right diffLeft diffRight =
     (case as_VariableNode m_Left of
        Some varNode \<Rightarrow>
          (case as_NumberNode m_Right of
             Some numberNode \<Rightarrow>
               (if numberNode = Finite 1 then NumberNode (Finite 1)
                else if numberNode = Finite 0 then NumberNode (Finite 0)
                else OperatorNode ''*'' (NumberNode numberNode)
                       (OperatorNode ''^'' (VariableNode varNode)
                         (NumberNode (dsub numberNode (Finite 1)))))
           | None \<Rightarrow>
          (case as_ConstantNode m_Right of
             Some constantNode \<Rightarrow>
               OperatorNode ''*'' (new_ConstantNode c constantNode)
                 (OperatorNode ''^'' (VariableNode varNode)
                   (OperatorNode ''-'' (new_ConstantNode c constantNode) (NumberNode (Finite 1))))
           | None \<Rightarrow> Differentiate_power_general c m_Left m_Right diffLeft diffRight))
      | None \<Rightarrow> Differentiate_power_general c m_Left m_Right diffLeft diffRight)"

definition Operator_Differentiate ::
  "Configuration \<Rightarrow> string \<Rightarrow> AstNode \<Rightarrow> AstNode \<Rightarrow> AstNode \<Rightarrow> AstNode \<Rightarrow> AstNode" where
  "Operator_Differentiate c m_Operator m_Left m_Right diffLeft diffRight =
     (if m_Operator = ''+'' then OperatorNode ''+'' diffLeft diffRight
      else if m_Operator = ''-'' then OperatorNode ''-'' diffLeft diffRight
      else if m_Operator = ''*'' then
        OperatorNode ''+'' (OperatorNode ''*'' diffLeft m_Right) (OperatorNode ''*'' m_Left diffRight)
      else if m_Operator = ''/'' then Differentiate_quotient c m_Left m_Right diffLeft diffRight
      else if m_Operator = ''^'' then Differentiate_power c m_Left m_Right diffLeft diffRight
      else ErrorNode (''Unknown operator '' @ m_Operator))"

fun Differentiate :: "Configuration \<Rightarrow> string \<Rightarrow> AstNode \<Rightarrow> AstNode" where
  "Differentiate c respectTo (ErrorNode m_Message) = ErrorNode m_Message"
| "Differentiate c respectTo (NumberNode m_Value) = NumberNode (Finite 0)"
| "Differentiate c respectTo (VariableNode m_Name) =
     (if m_Name = respectTo then NumberNode (Finite 1)
      else DifferentialNode m_Name respectTo 1)"
| "Differentiate c respectTo (ConstantNode m_Name m_Value) = NumberNode (Finite 0)"
| "Differentiate c respectTo (OperatorNode m_Operator m_Left m_Right) =
     (let diffLeft = Differentiate c respectTo m_Left;
          diffRight = Differentiate c respectTo m_Right
      in if is_ErrorNode diffLeft then diffLeft
         else if is_ErrorNode diffRight then diffRight
         else Operator_Differentiate c m_Operator m_Left m_Right diffLeft diffRight)"
| "Differentiate c respectTo (EqualsNode m_Left m_Right) =
     (let diffLeft = Differentiate c respectTo m_Left;
          diffRight = Differentiate c respectTo m_Right
      in if is_ErrorNode diffLeft then diffLeft
         else if is_ErrorNode diffRight then diffRight
         else EqualsNode diffLeft diffRight)"
| "Differentiate c respectTo (DifferentialNode m_Variable m_RespectTo m_Order) =
     (if respectTo = m_RespectTo
      then DifferentialNode m_Variable m_RespectTo (m_Order + 1)
      else OperatorNode ''*''
             (DifferentialNode m_Variable m_RespectTo (m_Order + 1))
             (DifferentialNode m_RespectTo respectTo 1))"
| "Differentiate c respectTo (FunctionNode m_Function m_Argument) =
     (if is_ErrorNode m_Argument then m_Argument
      else Function_Differentiate c m_Function m_Argument (Differentiate c respectTo m_Argument))"
| "Differentiate c respectTo (NullFunctionNode m) = ErrorNode m"

subsection \<open>Simplify\<close>

fun dless :: "double \<Rightarrow> double \<Rightarrow> bool" where
  "dless (Finite a) (Finite b) = (a < b)"
| "dless NaN _ = False"
| "dless _ NaN = False"
| "dless NegInf NegInf = False"
| "dless NegInf _ = True"
| "dless _ PosInf = True"
| "dless _ _ = False"

text \<open>
  The test \<open>(double)(int)result == result\<close> of \<open>SquareRootFunction::Simplify\<close>; where
  the conversion is undefined the test is taken to fail.
\<close>

definition is_whole :: "double \<Rightarrow> bool" where
  "is_whole result =
     (case int_cast result of Some i \<Rightarrow> Finite (of_int i) = result | None \<Rightarrow> False)"

text \<open>
  The \<open>Simplify\<close> member of each dispatch entry, applied to the simplified argument
  (each entry starts with \<open>argument->Simplify()\<close>, done by the caller here).
\<close>

definition number_to :: "AstNode \<Rightarrow> (double \<times> AstNode) list \<Rightarrow> AstNode \<Rightarrow> AstNode" where
  "number_to simplifiedArgument rules otherwise =
     (case as_NumberNode simplifiedArgument of
        Some number \<Rightarrow>
          (case map_of rules number of Some result \<Rightarrow> result | None \<Rightarrow> otherwise)
      | None \<Rightarrow> otherwise)"

fun Function_Simplify :: "Configuration \<Rightarrow> Function \<Rightarrow> AstNode \<Rightarrow> AstNode" where
  "Function_Simplify c SineFunction simplifiedArgument =
     number_to simplifiedArgument [(Finite 0, NumberNode (Finite 0))]
       (new_FunctionNode c (GetExpressionID SineFunction) simplifiedArgument)"
| "Function_Simplify c CosineFunction simplifiedArgument =
     number_to simplifiedArgument [(Finite 0, NumberNode (Finite 1))]
       (new_FunctionNode c (GetExpressionID CosineFunction) simplifiedArgument)"
| "Function_Simplify c TangentFunction simplifiedArgument =
     number_to simplifiedArgument [(Finite 0, NumberNode (Finite 0))]
       (new_FunctionNode c (GetExpressionID TangentFunction) simplifiedArgument)"
| "Function_Simplify c CotangentFunction simplifiedArgument =
     new_FunctionNode c (GetExpressionID CotangentFunction) simplifiedArgument"
| "Function_Simplify c SecantFunction simplifiedArgument =
     number_to simplifiedArgument [(Finite 0, NumberNode (Finite 1))]
       (new_FunctionNode c (GetExpressionID SecantFunction) simplifiedArgument)"
| "Function_Simplify c CosecantFunction simplifiedArgument =
     new_FunctionNode c (GetExpressionID CosecantFunction) simplifiedArgument"
| "Function_Simplify c HyperbolicSineFunction simplifiedArgument =
     number_to simplifiedArgument [(Finite 0, NumberNode (Finite 0))]
       (new_FunctionNode c (GetExpressionID HyperbolicSineFunction) simplifiedArgument)"
| "Function_Simplify c HyperbolicCosineFunction simplifiedArgument =
     number_to simplifiedArgument [(Finite 0, NumberNode (Finite 1))]
       (new_FunctionNode c (GetExpressionID HyperbolicCosineFunction) simplifiedArgument)"
| "Function_Simplify c HyperbolicTangentFunction simplifiedArgument =
     number_to simplifiedArgument [(Finite 0, NumberNode (Finite 0))]
       (new_FunctionNode c (GetExpressionID HyperbolicTangentFunction) simplifiedArgument)"
| "Function_Simplify c HyperbolicCotangentFunction simplifiedArgument =
     new_FunctionNode c (GetExpressionID HyperbolicCotangentFunction) simplifiedArgument"
| "Function_Simplify c HyperbolicSecantFunction simplifiedArgument =
     number_to simplifiedArgument [(Finite 0, NumberNode (Finite 1))]
       (new_FunctionNode c (GetExpressionID HyperbolicSecantFunction) simplifiedArgument)"
| "Function_Simplify c HyperbolicCosecantFunction simplifiedArgument =
     new_FunctionNode c (GetExpressionID HyperbolicCosecantFunction) simplifiedArgument"
| "Function_Simplify c Base10LogarithmFunction simplifiedArgument =
     number_to simplifiedArgument
       [(Finite 1, NumberNode (Finite 0)), (Finite 10, NumberNode (Finite 1))]
       (new_FunctionNode c (GetExpressionID Base10LogarithmFunction) simplifiedArgument)"
| "Function_Simplify c NaturalLogarithmFunction simplifiedArgument =
     number_to simplifiedArgument
       [(Finite 1, NumberNode (Finite 0)), (numbers_e, NumberNode (Finite 1))]
       (case as_ConstantNode simplifiedArgument of
          Some name \<Rightarrow>
            (if name = ''e'' then NumberNode (Finite 1)
             else new_FunctionNode c (GetExpressionID NaturalLogarithmFunction) simplifiedArgument)
        | None \<Rightarrow>
            new_FunctionNode c (GetExpressionID NaturalLogarithmFunction) simplifiedArgument)"
| "Function_Simplify c ExponentialFunction simplifiedArgument =
     number_to simplifiedArgument
       [(Finite 1, new_ConstantNode c ''e''), (Finite 0, NumberNode (Finite 1))]
       (new_FunctionNode c (GetExpressionID ExponentialFunction) simplifiedArgument)"
| "Function_Simplify c SquareRootFunction simplifiedArgument =
     (case as_NumberNode simplifiedArgument of
        Some number \<Rightarrow>
          (let result = c_sqrt number
           in if is_whole result then NumberNode result
              else new_FunctionNode c (GetExpressionID SquareRootFunction) simplifiedArgument)
      | None \<Rightarrow> new_FunctionNode c (GetExpressionID SquareRootFunction) simplifiedArgument)"
| "Function_Simplify c ModulusFunction simplifiedArgument =
     (case as_NumberNode simplifiedArgument of
        Some number \<Rightarrow>
          (if dless number (Finite 0) then NumberNode (dneg number) else NumberNode number)
      | None \<Rightarrow> new_FunctionNode c (GetExpressionID ModulusFunction) simplifiedArgument)"

text \<open>
  \<open>OperatorNode::Simplify\<close> after its two error checks, one definition per branch of
  the chain on \<open>m_Operator\<close>. Each is the sequence of early \<open>return\<close>s of that branch;
  where none fires the code falls through to its last line, which rebuilds the node.
\<close>

definition Simplify_plus :: "AstNode \<Rightarrow> AstNode \<Rightarrow> AstNode" where
  "Simplify_plus simplifiedLeft simplifiedRight =
     (let rightRule =
        (case as_NumberNode simplifiedRight of
           Some rightNum \<Rightarrow>
             (if rightNum = Finite 0 then simplifiedLeft
              else OperatorNode ''+'' simplifiedLeft simplifiedRight)
         | None \<Rightarrow> OperatorNode ''+'' simplifiedLeft simplifiedRight)
      in case as_NumberNode simplifiedLeft of
           Some leftNum \<Rightarrow>
             (if leftNum = Finite 0 then simplifiedRight
              else case as_NumberNode simplifiedRight of
                     Some rightNum \<Rightarrow> NumberNode (dadd leftNum rightNum)
                   | None \<Rightarrow> rightRule)
         | None \<Rightarrow> rightRule)"

definition Simplify_minus :: "AstNode \<Rightarrow> AstNode \<Rightarrow> AstNode" where
  "Simplify_minus simplifiedLeft simplifiedRight =
     (let rightRule =
        (case as_NumberNode simplifiedRight of
           Some rightNum \<Rightarrow>
             (if rightNum = Finite 0 then simplifiedLeft
              else OperatorNode ''-'' simplifiedLeft simplifiedRight)
         | None \<Rightarrow> OperatorNode ''-'' simplifiedLeft simplifiedRight)
      in case as_NumberNode simplifiedLeft of
           Some leftNum \<Rightarrow>
             (if leftNum = Finite 0
              then OperatorNode ''*'' (NumberNode (Finite (- 1))) simplifiedRight
              else case as_NumberNode simplifiedRight of
                     Some rightNum \<Rightarrow> NumberNode (dsub leftNum rightNum)
                   | None \<Rightarrow> rightRule)
         | None \<Rightarrow> rightRule)"

text \<open>The four expansions of a product of two sums or differences.\<close>

definition expand_product ::
  "string \<Rightarrow> AstNode \<Rightarrow> AstNode \<Rightarrow> string \<Rightarrow> AstNode \<Rightarrow> AstNode \<Rightarrow> AstNode option" where
  "expand_product leftOperator ll lr rightOperator rl rr =
     (if leftOperator = ''+'' \<and> rightOperator = ''+'' then
        Some (OperatorNode ''+''
          (OperatorNode ''+'' (OperatorNode ''*'' ll rl) (OperatorNode ''*'' ll rr))
          (OperatorNode ''+'' (OperatorNode ''*'' lr rl) (OperatorNode ''*'' lr rr)))
      else if leftOperator = ''+'' \<and> rightOperator = ''-'' then
        Some (OperatorNode ''+''
          (OperatorNode ''-'' (OperatorNode ''*'' ll rl) (OperatorNode ''*'' ll rr))
          (OperatorNode ''-'' (OperatorNode ''*'' lr rl) (OperatorNode ''*'' lr rr)))
      else if leftOperator = ''-'' \<and> rightOperator = ''+'' then
        Some (OperatorNode ''+''
          (OperatorNode ''-'' (OperatorNode ''*'' ll rl) (OperatorNode ''*'' lr rl))
          (OperatorNode ''-'' (OperatorNode ''*'' ll rr) (OperatorNode ''*'' lr rr)))
      else if leftOperator = ''-'' \<and> rightOperator = ''-'' then
        Some (OperatorNode ''+''
          (OperatorNode ''-'' (OperatorNode ''*'' ll rl) (OperatorNode ''*'' ll rr))
          (OperatorNode ''-'' (OperatorNode ''*'' lr rr) (OperatorNode ''*'' lr rl)))
      else None)"

definition is_factor :: "AstNode \<Rightarrow> bool" where
  "is_factor n = (as_NumberNode n \<noteq> None \<or> as_ConstantNode n \<noteq> None \<or> is_FunctionNode n)"

definition is_sum :: "string \<Rightarrow> bool" where
  "is_sum op = (op = ''+'' \<or> op = ''-'')"

text \<open>
  The part of the \<open>*\<close> branch that distributes over a sum or difference: first the
  block on \<open>rightOp\<close>, then the block on \<open>leftOp\<close>. \<open>None\<close> is reaching the end of
  both without a \<open>return\<close>.
\<close>

definition distribute_right :: "AstNode \<Rightarrow> AstNode \<Rightarrow> AstNode option" where
  "distribute_right simplifiedLeft simplifiedRight =
     (case as_OperatorNode simplifiedRight of
        Some (rightOperator, rl, rr) \<Rightarrow>
          (if is_sum rightOperator then
             (let scalar =
                (if is_factor simplifiedLeft then
                   Some (OperatorNode rightOperator
                     (OperatorNode ''*'' simplifiedLeft rl)
                     (OperatorNode ''*'' simplifiedLeft rr))
                 else None)
              in case as_OperatorNode simplifiedLeft of
                   Some (leftOperator, ll, lr) \<Rightarrow>
                     (if is_sum leftOperator
                      then (case expand_product leftOperator ll lr rightOperator rl rr of
                              Some expanded \<Rightarrow> Some expanded
                            | None \<Rightarrow> scalar)
                      else scalar)
                 | None \<Rightarrow> scalar)
           else None)
      | None \<Rightarrow> None)"

definition distribute_left :: "AstNode \<Rightarrow> AstNode \<Rightarrow> AstNode option" where
  "distribute_left simplifiedLeft simplifiedRight =
     (case as_OperatorNode simplifiedLeft of
        Some (leftOperator, ll, lr) \<Rightarrow>
          (if is_sum leftOperator \<and> is_factor simplifiedRight then
             Some (OperatorNode leftOperator
               (OperatorNode ''*'' simplifiedRight ll)
               (OperatorNode ''*'' simplifiedRight lr))
           else None)
      | None \<Rightarrow> None)"

definition same_name :: "AstNode \<Rightarrow> AstNode \<Rightarrow> bool" where
  "same_name simplifiedLeft simplifiedRight =
     ((case as_ConstantNode simplifiedLeft of
         Some lhs \<Rightarrow>
           (case as_ConstantNode simplifiedRight of Some rhs \<Rightarrow> lhs = rhs | None \<Rightarrow> False)
       | None \<Rightarrow> False)
      \<or>
      (case as_VariableNode simplifiedLeft of
         Some lhs \<Rightarrow>
           (case as_VariableNode simplifiedRight of Some rhs \<Rightarrow> lhs = rhs | None \<Rightarrow> False)
       | None \<Rightarrow> False))"

definition Simplify_times :: "AstNode \<Rightarrow> AstNode \<Rightarrow> AstNode" where
  "Simplify_times simplifiedLeft simplifiedRight =
     (if as_NumberNode simplifiedLeft = Some (Finite 1) then simplifiedRight
      else if as_NumberNode simplifiedLeft = Some (Finite 0) then simplifiedLeft
      else if as_NumberNode simplifiedRight = Some (Finite 1) then simplifiedLeft
      else if as_NumberNode simplifiedRight = Some (Finite 0) then simplifiedRight
      else if same_name simplifiedLeft simplifiedRight
        then OperatorNode ''^'' simplifiedLeft (NumberNode (Finite 2))
      else case distribute_right simplifiedLeft simplifiedRight of
             Some expanded \<Rightarrow> expanded
           | None \<Rightarrow>
          (case distribute_left simplifiedLeft simplifiedRight of
             Some expanded \<Rightarrow> expanded
           | None \<Rightarrow> OperatorNode ''*'' simplifiedLeft simplifiedRight))"

definition Simplify_divide :: "AstNode \<Rightarrow> AstNode \<Rightarrow> AstNode" where
  "Simplify_divide simplifiedLeft simplifiedRight =
     (if as_NumberNode simplifiedRight = Some (Finite 1) then simplifiedLeft
      else if as_NumberNode simplifiedLeft = Some (Finite 0) then simplifiedLeft
      else OperatorNode ''/'' simplifiedLeft simplifiedRight)"

definition Simplify_power :: "AstNode \<Rightarrow> AstNode \<Rightarrow> AstNode" where
  "Simplify_power simplifiedLeft simplifiedRight =
     (let rightRule =
        (case as_NumberNode simplifiedRight of
           Some rightNum \<Rightarrow>
             (if rightNum = Finite 1 then simplifiedLeft
              else if rightNum = Finite 0 then NumberNode (Finite 1)
              else OperatorNode ''^'' simplifiedLeft simplifiedRight)
         | None \<Rightarrow> OperatorNode ''^'' simplifiedLeft simplifiedRight)
      in case as_NumberNode simplifiedLeft of
           Some leftNum \<Rightarrow>
             (if leftNum = Finite 0 \<and> as_NumberNode simplifiedRight = None
                then NumberNode (Finite 0)
              else if leftNum = Finite 0 \<and> as_NumberNode simplifiedRight \<noteq> Some (Finite 0)
                then NumberNode (Finite 0)
              else if leftNum = Finite 1 then NumberNode (Finite 1)
              else rightRule)
         | None \<Rightarrow> rightRule)"

definition Operator_Simplify :: "string \<Rightarrow> AstNode \<Rightarrow> AstNode \<Rightarrow> AstNode" where
  "Operator_Simplify m_Operator simplifiedLeft simplifiedRight =
     (if m_Operator = ''+'' then Simplify_plus simplifiedLeft simplifiedRight
      else if m_Operator = ''-'' then Simplify_minus simplifiedLeft simplifiedRight
      else if m_Operator = ''*'' then Simplify_times simplifiedLeft simplifiedRight
      else if m_Operator = ''/'' then Simplify_divide simplifiedLeft simplifiedRight
      else if m_Operator = ''^'' then Simplify_power simplifiedLeft simplifiedRight
      else OperatorNode m_Operator simplifiedLeft simplifiedRight)"

fun Simplify :: "Configuration \<Rightarrow> AstNode \<Rightarrow> AstNode" where
  "Simplify c (ErrorNode m_Message) = ErrorNode m_Message"
| "Simplify c (NumberNode m_Value) = NumberNode m_Value"
| "Simplify c (VariableNode m_Name) = VariableNode m_Name"
| "Simplify c (ConstantNode m_Name m_Value) = new_ConstantNode c m_Name"
| "Simplify c (OperatorNode m_Operator m_Left m_Right) =
     (let simplifiedLeft = Simplify c m_Left;
          simplifiedRight = Simplify c m_Right
      in if is_ErrorNode simplifiedLeft then simplifiedLeft
         else if is_ErrorNode simplifiedRight then simplifiedRight
         else Operator_Simplify m_Operator simplifiedLeft simplifiedRight)"
| "Simplify c (EqualsNode m_Left m_Right) =
     (let simplifiedLeft = Simplify c m_Left;
          simplifiedRight = Simplify c m_Right
      in if is_ErrorNode simplifiedLeft then simplifiedLeft
         else if is_ErrorNode simplifiedRight then simplifiedRight
         else EqualsNode simplifiedLeft simplifiedRight)"
| "Simplify c (DifferentialNode m_Variable m_RespectTo m_Order) =
     DifferentialNode m_Variable m_RespectTo m_Order"
| "Simplify c (FunctionNode m_Function m_Argument) =
     (if is_ErrorNode m_Argument then m_Argument
      else Function_Simplify c m_Function (Simplify c m_Argument))"
| "Simplify c (NullFunctionNode m) = ErrorNode m"

subsection \<open>Tokens and the tokenizer\<close>

datatype TokenType =
  Number | Operator | Variable | Constant | Function | Parenthesis | ModulusDelimiter
  | Equals | Unknown

record Token =
  Type :: TokenType
  Value :: string

definition token :: "TokenType \<Rightarrow> string \<Rightarrow> Token" where
  "token type val = \<lparr> Type = type, Value = val \<rparr>"

definition is_digit :: "char \<Rightarrow> bool" where
  "is_digit ch = (ch \<in> set ''0123456789'')"

definition is_letter :: "char \<Rightarrow> bool" where
  "is_letter ch = (ch \<in> set ''abcdefghijklmnopqrstuvwxyzABCDEFGHIJKLMNOPQRSTUVWXYZ'')"

definition is_word_char :: "char \<Rightarrow> bool" where
  "is_word_char ch = (is_letter ch \<or> is_digit ch \<or> ch = CHR ''_'')"

text \<open>
  The regular expressions of \<open>Tokenize\<close>, as matchers that return the length of the
  match at the start of the text. \<open>before\<close> tells whether the character before the
  text is a word character, which the assertion \<open>\b\<close> needs. The identifiers of the
  registry are taken as literal, non-empty names, as those of \<open>Init\<close> are.
\<close>

definition next_is_word :: "string \<Rightarrow> bool" where
  "next_is_word s = (case s of [] \<Rightarrow> False | ch # _ \<Rightarrow> is_word_char ch)"

definition name_matches :: "bool \<Rightarrow> string \<Rightarrow> string \<Rightarrow> bool" where
  "name_matches before s name =
     (name \<noteq> [] \<and> take (length name) s = name
      \<and> before \<noteq> next_is_word s
      \<and> is_word_char (last name) \<noteq> next_is_word (drop (length name) s))"

text \<open>\<open>\b(name1|name2|...)\b\<close>\<close>

definition match_names :: "string list \<Rightarrow> bool \<Rightarrow> string \<Rightarrow> nat option" where
  "match_names names before s = map_option length (find (name_matches before s) names)"

text \<open>\<open>-?\d+(\.\d+)?\<close>\<close>

definition match_number :: "string \<Rightarrow> nat option" where
  "match_number s =
     (let sign = (case s of ch # _ \<Rightarrow> if ch = CHR ''-'' then 1 else 0 | [] \<Rightarrow> 0);
          whole = takeWhile is_digit (drop sign s);
          after = drop (sign + length whole) s;
          fraction = (case after of
                        ch # rest \<Rightarrow> if ch = CHR ''.'' then takeWhile is_digit rest else []
                      | [] \<Rightarrow> [])
      in if whole = [] then None
         else if fraction = [] then Some (sign + length whole)
         else Some (sign + length whole + 1 + length fraction))"

text \<open>\<open>[\+\-\*/\^=]\<close>\<close>

definition match_operator :: "string \<Rightarrow> nat option" where
  "match_operator s =
     (case s of ch # _ \<Rightarrow> if ch \<in> set ''+-*/^='' then Some 1 else None | [] \<Rightarrow> None)"

text \<open>\<open>[a-zA-Z]+\<close>\<close>

definition match_variable :: "string \<Rightarrow> nat option" where
  "match_variable s =
     (let letters = takeWhile is_letter s
      in if letters = [] then None else Some (length letters))"

text \<open>\<open>[()]\<close>\<close>

definition match_parenthesis :: "string \<Rightarrow> nat option" where
  "match_parenthesis s =
     (case s of ch # _ \<Rightarrow> if ch \<in> set ''()'' then Some 1 else None | [] \<Rightarrow> None)"

text \<open>\<open>\|\<close>\<close>

definition match_modulusDelimiter :: "string \<Rightarrow> nat option" where
  "match_modulusDelimiter s =
     (case s of ch # _ \<Rightarrow> if ch = CHR ''|'' then Some 1 else None | [] \<Rightarrow> None)"

definition or_else :: "'a option \<Rightarrow> 'a option \<Rightarrow> 'a option" where
  "or_else a b = (case a of Some x \<Rightarrow> Some x | None \<Rightarrow> b)"

text \<open>\<open>tokenPattern\<close>: the alternatives in the order of the pattern.\<close>

definition match_token :: "string list \<Rightarrow> string list \<Rightarrow> bool \<Rightarrow> string \<Rightarrow> nat option" where
  "match_token functionIDs constantNames before s =
     or_else (match_names functionIDs before s)
    (or_else (match_names constantNames before s)
    (or_else (match_number s)
    (or_else (match_operator s)
    (or_else (match_variable s)
    (or_else (match_parenthesis s)
             (match_modulusDelimiter s))))))"

text \<open>
  The sequence of matches that the \<open>std::sregex_iterator\<close> runs through: at each
  position the first alternative that matches; a character where none matches is
  passed over.
\<close>

fun regex_matches :: "string list \<Rightarrow> string list \<Rightarrow> bool \<Rightarrow> string \<Rightarrow> string list" where
  "regex_matches functionIDs constantNames before [] = []"
| "regex_matches functionIDs constantNames before (ch # rest) =
     (case match_token functionIDs constantNames before (ch # rest) of
        None \<Rightarrow> regex_matches functionIDs constantNames (is_word_char ch) rest
      | Some n \<Rightarrow>
          take n (ch # rest)
          # regex_matches functionIDs constantNames
              (is_word_char (last (ch # take (n - 1) rest))) (drop (n - 1) rest))"

text \<open>
  The chain of \<open>std::regex_match\<close> tests on a matched text. Its last test repeats
  \<open>parenthesisPattern\<close>, as the source does.
\<close>

definition full_match :: "(string \<Rightarrow> nat option) \<Rightarrow> string \<Rightarrow> bool" where
  "full_match pattern val = (pattern val = Some (length val))"

definition classify :: "string list \<Rightarrow> string list \<Rightarrow> string \<Rightarrow> TokenType" where
  "classify functionIDs constantNames val =
     (if full_match (match_names functionIDs False) val then Function
      else if full_match (match_names constantNames False) val then Constant
      else if full_match match_number val then Number
      else if full_match match_operator val then
        (if val = ''='' then Equals else Operator)
      else if full_match match_variable val then Variable
      else if full_match match_parenthesis val then Parenthesis
      else if full_match match_parenthesis val then ModulusDelimiter
      else Unknown)"

text \<open>
  \<open>IsNegativeSign\<close> reads the last token. With \<open>index > 0\<close> the vector is never
  empty in \<open>Tokenize\<close>; the empty case stands for that unreachable read.
\<close>

definition IsNegativeSign :: "nat \<Rightarrow> Token list \<Rightarrow> bool \<Rightarrow> bool" where
  "IsNegativeSign index tokens insideModulus =
     (if index = 0 then True
      else case tokens of
             [] \<Rightarrow> False
           | _ \<Rightarrow>
               (let previousToken = last tokens
                in Type previousToken = Operator
                   \<or> (Type previousToken = Parenthesis \<and> Value previousToken = ''('')
                   \<or> (Type previousToken = ModulusDelimiter \<and> insideModulus)))"

text \<open>
  The \<open>while\<close> loop of \<open>Tokenize\<close> over the remaining matches. A sign with no match
  after it is dropped and ends the loop.
\<close>

fun Tokenize_loop ::
  "string list \<Rightarrow> string list \<Rightarrow> nat \<Rightarrow> bool \<Rightarrow> Token list \<Rightarrow> string list \<Rightarrow> Token list" where
  "Tokenize_loop functionIDs constantNames i insideModulus tokens [] = tokens"
| "Tokenize_loop functionIDs constantNames i insideModulus tokens (val # rest) =
     (let type = classify functionIDs constantNames val;
          insideModulus' = (if type = ModulusDelimiter then \<not> insideModulus else insideModulus)
      in if type = Operator \<and> val = ''-'' \<and> IsNegativeSign i tokens insideModulus' then
           (case rest of
              [] \<Rightarrow> tokens
            | nextValue # rest' \<Rightarrow>
                Tokenize_loop functionIDs constantNames (i + 1) insideModulus'
                  (tokens @ [token Number (val @ nextValue)]) rest')
         else
           Tokenize_loop functionIDs constantNames (i + 1) insideModulus'
             (tokens @ [token type val]) rest)"

definition GetFunctionIDs :: "Configuration \<Rightarrow> string list" where
  "GetFunctionIDs c = map fst (s_Functions c)"

definition GetConstantNames :: "Configuration \<Rightarrow> string list" where
  "GetConstantNames c = map fst (s_Constants c)"

definition Tokenize :: "Configuration \<Rightarrow> string \<Rightarrow> Token list" where
  "Tokenize c input =
     Tokenize_loop (GetFunctionIDs c) (GetConstantNames c) 0 False []
       (regex_matches (GetFunctionIDs c) (GetConstantNames c) False input)"

subsection \<open>The parser\<close>

text \<open>
  \<open>std::stod\<close> on the texts a \<open>Number\<close> token can hold: an optional sign, then a
  decimal numeral, or a text that starts with \<open>inf\<close> or \<open>nan\<close> in any case. Any other
  text makes \<open>std::stod\<close> throw \<open>std::invalid_argument\<close>: \<open>None\<close>.
\<close>

definition digit_value :: "char \<Rightarrow> nat" where
  "digit_value ch = of_char ch - 48"

definition digits_value :: "string \<Rightarrow> nat" where
  "digits_value ds = foldl (\<lambda>acc ch. 10 * acc + digit_value ch) 0 ds"

definition lower_case :: "char \<Rightarrow> char" where
  "lower_case ch =
     (if ch \<in> set ''ABCDEFGHIJKLMNOPQRSTUVWXYZ'' then char_of (of_char ch + (32::nat)) else ch)"

definition stod :: "string \<Rightarrow> double option" where
  "stod str =
     (let negative = (case str of ch # _ \<Rightarrow> ch = CHR ''-'' | [] \<Rightarrow> False);
          body = (if negative then tl str else str);
          whole = takeWhile is_digit body;
          after = drop (length whole) body;
          fraction = (case after of
                        ch # rest \<Rightarrow> if ch = CHR ''.'' then takeWhile is_digit rest else []
                      | [] \<Rightarrow> []);
          magnitude = real (digits_value whole)
                      + real (digits_value fraction) / 10 ^ length fraction
      in if whole \<noteq> [] then Some (Finite (if negative then - magnitude else magnitude))
         else if map lower_case (take 3 body) = ''inf''
           then Some (if negative then NegInf else PosInf)
         else if map lower_case (take 3 body) = ''nan'' then Some NaN
         else None)"

text \<open>\<open>std::to_string((uint32_t)token->Type)\<close>\<close>

fun TokenType_to_string :: "TokenType \<Rightarrow> string" where
  "TokenType_to_string Number = ''0''"
| "TokenType_to_string Operator = ''1''"
| "TokenType_to_string Variable = ''2''"
| "TokenType_to_string Constant = ''3''"
| "TokenType_to_string Function = ''4''"
| "TokenType_to_string Parenthesis = ''5''"
| "TokenType_to_string ModulusDelimiter = ''6''"
| "TokenType_to_string Equals = ''7''"
| "TokenType_to_string Unknown = ''8''"

definition Peek :: "Token list \<Rightarrow> nat \<Rightarrow> Token option" where
  "Peek m_Tokens m_Position =
     (if m_Position < length m_Tokens then Some (m_Tokens ! m_Position) else None)"

text \<open>
  A parsing function takes \<open>m_Position\<close> and returns the node with the new position.
  \<open>InvalidArgument\<close> is the exception of \<open>std::stod\<close>, which no function of the parser
  catches. The functions recurse on a bound on the depth of the calls: every call
  takes one unit, and \<open>OutOfFuel\<close> is the answer of a call that has none left.
\<close>

datatype parse_error = InvalidArgument | OutOfFuel

definition quote :: string where
  "quote = [CHR 0x27]"

text \<open>
  The end of the three bracketed forms of \<open>ParsePrimary\<close>: the closing delimiter is
  consumed, or the message becomes an \<open>ErrorNode\<close>.
\<close>

definition closing ::
  "Token list \<Rightarrow> string \<Rightarrow> string \<Rightarrow> AstNode \<Rightarrow> nat \<Rightarrow> parse_error + AstNode \<times> nat" where
  "closing m_Tokens delimiter message node m_Position =
     (case Peek m_Tokens m_Position of
        None \<Rightarrow> Inr (ErrorNode message, m_Position)
      | Some t \<Rightarrow>
          (if Value t \<noteq> delimiter then Inr (ErrorNode message, m_Position)
           else Inr (node, m_Position + 1)))"

text \<open>
  What every parsing function does with the node a callee returned: an exception or an
  \<open>ErrorNode\<close> is passed up at once, any other node goes on to \<open>continue\<close>.
\<close>

definition unless_error ::
  "parse_error + AstNode \<times> nat \<Rightarrow> (AstNode \<Rightarrow> nat \<Rightarrow> parse_error + AstNode \<times> nat)
   \<Rightarrow> parse_error + AstNode \<times> nat" where
  "unless_error returned continue =
     (case returned of
        Inl e \<Rightarrow> Inl e
      | Inr (node, pos) \<Rightarrow> (if is_ErrorNode node then Inr (node, pos) else continue node pos))"

text \<open>
  The member functions of \<open>Parser\<close> call each other; \<open>Parser_call\<close> names the function
  that is called with its arguments (\<open>left\<close> and \<open>m_Position\<close>), the \<open>_loop\<close> entries
  being the \<open>while (true)\<close> loop of the function of that name.
\<close>

datatype Parser_call =
    Call_ParseEquals nat
  | Call_ParseEquals_loop AstNode nat
  | Call_ParseAdditionSubtraction nat
  | Call_ParseAdditionSubtraction_loop AstNode nat
  | Call_ParseMultiplicationDivision nat
  | Call_ParseMultiplicationDivision_loop AstNode nat
  | Call_ParseExponentiation nat
  | Call_ParseExponentiation_loop AstNode nat
  | Call_ParsePrimary nat

primrec Parser_run ::
  "nat \<Rightarrow> Configuration \<Rightarrow> Token list \<Rightarrow> Parser_call \<Rightarrow> parse_error + AstNode \<times> nat" where
  "Parser_run 0 c m_Tokens call = Inl OutOfFuel"
| "Parser_run (Suc fuel) c m_Tokens call =
     (case call of
        Call_ParseEquals pos \<Rightarrow>
          unless_error (Parser_run fuel c m_Tokens (Call_ParseAdditionSubtraction pos))
            (\<lambda>left pos'. Parser_run fuel c m_Tokens (Call_ParseEquals_loop left pos'))
      | Call_ParseEquals_loop left pos \<Rightarrow>
          (case Peek m_Tokens pos of
             None \<Rightarrow> Inr (left, pos)
           | Some t \<Rightarrow>
               (if Value t \<noteq> ''='' then Inr (left, pos)
                else unless_error
                       (Parser_run fuel c m_Tokens (Call_ParseAdditionSubtraction (pos + 1)))
                       (\<lambda>right pos'. Parser_run fuel c m_Tokens
                          (Call_ParseEquals_loop (EqualsNode left right) pos'))))
      | Call_ParseAdditionSubtraction pos \<Rightarrow>
          unless_error (Parser_run fuel c m_Tokens (Call_ParseMultiplicationDivision pos))
            (\<lambda>left pos'. Parser_run fuel c m_Tokens (Call_ParseAdditionSubtraction_loop left pos'))
      | Call_ParseAdditionSubtraction_loop left pos \<Rightarrow>
          (case Peek m_Tokens pos of
             None \<Rightarrow> Inr (left, pos)
           | Some t \<Rightarrow>
               (if Value t \<noteq> ''+'' \<and> Value t \<noteq> ''-'' then Inr (left, pos)
                else unless_error
                       (Parser_run fuel c m_Tokens (Call_ParseMultiplicationDivision (pos + 1)))
                       (\<lambda>right pos'. Parser_run fuel c m_Tokens
                          (Call_ParseAdditionSubtraction_loop
                             (OperatorNode (Value t) left right) pos'))))
      | Call_ParseMultiplicationDivision pos \<Rightarrow>
          unless_error (Parser_run fuel c m_Tokens (Call_ParseExponentiation pos))
            (\<lambda>left pos'. Parser_run fuel c m_Tokens
               (Call_ParseMultiplicationDivision_loop left pos'))
      | Call_ParseMultiplicationDivision_loop left pos \<Rightarrow>
          (case Peek m_Tokens pos of
             None \<Rightarrow> Inr (left, pos)
           | Some t \<Rightarrow>
               (if Value t \<noteq> ''*'' \<and> Value t \<noteq> ''/'' then Inr (left, pos)
                else unless_error
                       (Parser_run fuel c m_Tokens (Call_ParseExponentiation (pos + 1)))
                       (\<lambda>right pos'. Parser_run fuel c m_Tokens
                          (Call_ParseMultiplicationDivision_loop
                             (OperatorNode (Value t) left right) pos'))))
      | Call_ParseExponentiation pos \<Rightarrow>
          unless_error (Parser_run fuel c m_Tokens (Call_ParsePrimary pos))
            (\<lambda>left pos'. Parser_run fuel c m_Tokens (Call_ParseExponentiation_loop left pos'))
      | Call_ParseExponentiation_loop left pos \<Rightarrow>
          (case Peek m_Tokens pos of
             None \<Rightarrow> Inr (left, pos)
           | Some t \<Rightarrow>
               (if Value t \<noteq> ''^'' then Inr (left, pos)
                else unless_error
                       (Parser_run fuel c m_Tokens (Call_ParsePrimary (pos + 1)))
                       (\<lambda>right pos'. Parser_run fuel c m_Tokens
                          (Call_ParseExponentiation_loop
                             (OperatorNode (Value t) left right) pos'))))
      | Call_ParsePrimary pos \<Rightarrow>
          (case Peek m_Tokens pos of
             None \<Rightarrow> Inr (ErrorNode ''Unexpected end of tokens'', pos)
           | Some t \<Rightarrow>
               (if Type t = Number then
                  (case stod (Value t) of
                     None \<Rightarrow> Inl InvalidArgument
                   | Some v \<Rightarrow> Inr (NumberNode v, pos + 1))
                else if Type t = Constant then Inr (new_ConstantNode c (Value t), pos + 1)
                else if Type t = Variable then Inr (VariableNode (Value t), pos + 1)
                else if Type t = Function then
                  (case Peek m_Tokens (pos + 1) of
                     None \<Rightarrow>
                       Inr (ErrorNode
                              (''expected '' @ quote @ ''('' @ quote @ '' after function''),
                            pos + 1)
                   | Some t' \<Rightarrow>
                       (if Value t' \<noteq> ''('' then
                          Inr (ErrorNode
                                 (''expected '' @ quote @ ''('' @ quote @ '' after function''),
                               pos + 1)
                        else case Parser_run fuel c m_Tokens (Call_ParseEquals (pos + 2)) of
                               Inl e \<Rightarrow> Inl e
                             | Inr (argument, pos') \<Rightarrow>
                                 closing m_Tokens '')''
                                   (''expected '' @ quote @ '')'' @ quote
                                    @ '' after function argument'')
                                   (new_FunctionNode c (Value t) argument) pos'))
                else if Type t = ModulusDelimiter then
                  (case Parser_run fuel c m_Tokens (Call_ParseEquals (pos + 1)) of
                     Inl e \<Rightarrow> Inl e
                   | Inr (argument, pos') \<Rightarrow>
                       closing m_Tokens ''|''
                         (''expected '' @ quote @ ''|'' @ quote @ '' to close modulus expression'')
                         (new_FunctionNode c ''abs'' argument) pos')
                else if Type t = Parenthesis \<and> Value t = ''('' then
                  (case Parser_run fuel c m_Tokens (Call_ParseEquals (pos + 1)) of
                     Inl e \<Rightarrow> Inl e
                   | Inr (expression, pos') \<Rightarrow>
                       closing m_Tokens '')'' (''expected '' @ quote @ '')'' @ quote)
                         expression pos')
                else Inr (ErrorNode (''unexpected token '' @ Value t @ '' (type = ''
                                     @ TokenType_to_string (Type t) @ '')''), pos))))"

text \<open>\<open>Parser(tokens).ParseExpression()\<close>, with the bound on the depth of the calls.\<close>

definition ParseExpression :: "nat \<Rightarrow> Configuration \<Rightarrow> Token list \<Rightarrow> parse_error + AstNode" where
  "ParseExpression fuel c tokens =
     (case Parser_run fuel c tokens (Call_ParseEquals 0) of Inl e \<Rightarrow> Inl e | Inr (node, pos) \<Rightarrow> Inr node)"

subsection \<open>Trees with an error\<close>

text \<open>
  \<open>contains_Error\<close> holds of a tree that has an \<open>ErrorNode\<close> as a subtree. The argument
  of a node with a null \<open>m_Function\<close> is an \<open>ErrorNode\<close>.
\<close>

fun contains_Error :: "AstNode \<Rightarrow> bool" where
  "contains_Error (ErrorNode m) = True"
| "contains_Error (OperatorNode op l r) = (contains_Error l \<or> contains_Error r)"
| "contains_Error (EqualsNode l r) = (contains_Error l \<or> contains_Error r)"
| "contains_Error (FunctionNode f a) = contains_Error a"
| "contains_Error (NullFunctionNode m) = True"
| "contains_Error _ = False"

text \<open>
  \<open>exposed_Error\<close> holds of a tree that has an \<open>ErrorNode\<close> at its root, as the
  argument of a function node, or below operator and equals nodes only.
\<close>

fun exposed_Error :: "AstNode \<Rightarrow> bool" where
  "exposed_Error (ErrorNode m) = True"
| "exposed_Error (OperatorNode op l r) = (exposed_Error l \<or> exposed_Error r)"
| "exposed_Error (EqualsNode l r) = (exposed_Error l \<or> exposed_Error r)"
| "exposed_Error (FunctionNode f a) = is_ErrorNode a"
| "exposed_Error (NullFunctionNode m) = True"
| "exposed_Error _ = False"

subsection \<open>Trees built with a registry, and arguments where a tree is defined\<close>









section \<open>Properties\<close>

subsection \<open>The registry\<close>

lemmas registry_defs =
  Init_def initial_Configuration_def AddFunction_def AddConstant_def
  GetFunction_def GetConstantValue_def

lemma map_of_assign: "map_of (assign k v kvs) = (map_of kvs)(k \<mapsto> v)"
  by (induction kvs) auto

lemma Init_registers_functions:
  "map (GetFunction (Init initial_Configuration))
     [''sin'', ''cos'', ''tan'', ''cot'', ''sec'', ''csc'', ''sinh'', ''cosh'', ''tanh'',
      ''coth'', ''sech'', ''csch'', ''log'', ''ln'', ''sqrt'', ''abs'']
   = map Some
     [SineFunction, CosineFunction, TangentFunction, CotangentFunction, SecantFunction,
      CosecantFunction, HyperbolicSineFunction, HyperbolicCosineFunction,
      HyperbolicTangentFunction, HyperbolicCotangentFunction, HyperbolicSecantFunction,
      HyperbolicCosecantFunction, Base10LogarithmFunction, NaturalLogarithmFunction,
      SquareRootFunction, ModulusFunction]"
  by (simp add: registry_defs)

lemma Init_registers_constants:
  "GetConstantValue (Init initial_Configuration) ''e'' = Finite (exp 1)
   \<and> GetConstantValue (Init initial_Configuration) ''pi'' = Finite pi"
  by (simp add: registry_defs numbers_e_def numbers_pi_def)

lemma Init_idempotent: "Init (Init c) = Init c"
  by (simp add: Init_def)

text \<open>
  Claim C3. After \<open>Init()\<close> the registry has an entry for each of the seventeen standard
  identifiers, among them \<open>exp\<close>, the constants \<open>e\<close> and \<open>pi\<close> have their values, and a
  second \<open>Init()\<close> changes nothing. The sixteen identifiers other than \<open>exp\<close>, the
  constants and idempotence are the three lemmas above. \<open>Init\<close> never registers
  \<open>ExponentialFunction\<close>: after \<open>Init()\<close> on the initial registry, \<open>GetFunction("exp")\<close>
  is the null pointer.
\<close>

theorem Init_misses_exp: "GetFunction (Init initial_Configuration) ''exp'' = None"
  by (simp add: registry_defs)

lemma AddFunction_first_wins: "GetFunction c name = Some f \<Longrightarrow> AddFunction T name c = c"
  by (simp add: AddFunction_def GetFunction_def)

lemma AddFunction_registers:
  "GetFunction c name = None \<Longrightarrow> GetFunction (AddFunction T name c) name = Some T"
  by (simp add: AddFunction_def GetFunction_def map_of_assign)

lemma AddConstant_last_wins: "GetConstantValue (AddConstant name v c) name = v"
  by (simp add: AddConstant_def GetConstantValue_def map_of_assign)

text \<open>
  Claim C9. For \<open>AddFunction\<close> and for \<open>AddConstant\<close> the first registration under an
  identifier wins. \<open>AddFunction\<close> does so (\<open>AddFunction_first_wins\<close>); \<open>AddConstant\<close>
  assigns without looking, so the last registration wins: registering \<open>k\<close> as 1 and
  then as 2 leaves \<open>k\<close> bound to 2.
\<close>

theorem AddConstant_overwrites:
  "GetConstantValue
     (AddConstant ''k'' (Finite 2) (AddConstant ''k'' (Finite 1) initial_Configuration)) ''k''
   = Finite 2"
  by (simp add: registry_defs)

subsection \<open>Derivatives of leaves\<close>

text \<open>
  Claim C7. The derivative of a \<open>NumberNode\<close> and of a \<open>ConstantNode\<close> is the number 0,
  whatever the variable; the derivative of the variable \<open>v\<close> with respect to \<open>v\<close> is the
  number 1; the derivative of another variable \<open>u\<close> with respect to \<open>v\<close> is the
  \<open>DifferentialNode\<close> \<open>du/dv\<close> of order 1.
\<close>

theorem Differentiate_leaves:
  "Differentiate c v (NumberNode k) = NumberNode (Finite 0)
   \<and> Differentiate c v (ConstantNode name val) = NumberNode (Finite 0)
   \<and> Differentiate c v (new_ConstantNode c name) = NumberNode (Finite 0)
   \<and> Differentiate c v (VariableNode v) = NumberNode (Finite 1)
   \<and> (u \<noteq> v \<longrightarrow> Differentiate c v (VariableNode u) = DifferentialNode u v 1)"
  by (simp add: new_ConstantNode_def)

theorem Differentiate_leaves_witness:
  "''y'' \<noteq> ''x''
   \<and> Differentiate initial_Configuration ''x'' (VariableNode ''y'') = DifferentialNode ''y'' ''x'' 1
   \<and> Differentiate initial_Configuration ''x'' (VariableNode ''x'') = NumberNode (Finite 1)
   \<and> Differentiate initial_Configuration ''x'' (NumberNode (Finite 7)) = NumberNode (Finite 0)"
  using Differentiate_leaves [of initial_Configuration "''x''" "Finite 7" "''e''" NaN "''y''"]
  by simp

subsection \<open>Differential nodes\<close>

lemma order_increment:
  fixes n :: "32 word"
  assumes "sint n < 2147483647"
  shows "sint (n + 1) = sint n + 1"
proof -
  have "- (2 ^ 31) \<le> sint n"
    using sint_ge [of n] by simp
  with assms show ?thesis
    by (simp add: sint_word_add signed_take_bit_int_eq_self_iff)
qed

text \<open>
  Claim C10. The derivative of the \<open>DifferentialNode\<close> \<open>dV/dW\<close> of order \<open>n\<close> with
  respect to \<open>W\<close> is the \<open>DifferentialNode\<close> \<open>dV/dW\<close> of order \<open>n + 1\<close>; with respect
  to another variable \<open>t\<close> it is the product of that node and the node \<open>dW/dt\<close> of order
  1; \<open>Simplify\<close> returns a \<open>DifferentialNode\<close> with the same three fields. The order is
  the \<open>int\<close> \<open>m_Order + 1\<close>, which is the number \<open>n + 1\<close> for every order below the
  largest \<open>int\<close>.
\<close>

theorem Differential_rules:
  "Differentiate c W (DifferentialNode V W n) = DifferentialNode V W (n + 1)
   \<and> (t \<noteq> W \<longrightarrow>
        Differentiate c t (DifferentialNode V W n)
        = OperatorNode ''*'' (DifferentialNode V W (n + 1)) (DifferentialNode W t 1))
   \<and> Simplify c (DifferentialNode V W n) = DifferentialNode V W n
   \<and> (sint n < 2147483647 \<longrightarrow> sint (n + 1) = sint n + 1)"
  by (simp add: order_increment)

theorem Differential_rules_witness:
  "''t'' \<noteq> ''x'' \<and> sint (2 :: 32 word) < 2147483647
   \<and> Differentiate initial_Configuration ''t'' (DifferentialNode ''y'' ''x'' 2)
     = OperatorNode ''*'' (DifferentialNode ''y'' ''x'' 3) (DifferentialNode ''x'' ''t'' 1)
   \<and> Differentiate initial_Configuration ''x'' (DifferentialNode ''y'' ''x'' 2)
     = DifferentialNode ''y'' ''x'' 3
   \<and> sint (2 + 1 :: 32 word) = 3"
  using Differential_rules [of initial_Configuration "''x''" "''y''" 2 "''t''"]
  by simp

subsection \<open>Simplification of powers\<close>

text \<open>
  Claim C6 as the specification states it: \<open>0^0\<close> is left as it is. The code returns
  the number 1 for it: the test that keeps \<open>0^0\<close> from becoming 0 falls through to the
  rule for a zero exponent.
\<close>

theorem Simplify_zero_power_zero:
  "Simplify initial_Configuration (OperatorNode ''^'' (NumberNode (Finite 0)) (NumberNode (Finite 0)))
   = NumberNode (Finite 1)
   \<and> NumberNode (Finite 1) \<noteq> OperatorNode ''^'' (NumberNode (Finite 0)) (NumberNode (Finite 0))"
  by (simp add: Operator_Simplify_def Simplify_power_def is_ErrorNode_def)

text \<open>
  Claim C6, amended. Let \<open>L'\<close> and \<open>R'\<close> be the simplified children of a \<open>^\<close> node,
  neither of them an \<open>ErrorNode\<close>. \<open>Simplify\<close> returns the number 0 when \<open>L'\<close> is the
  number 0 and \<open>R'\<close> is not the number 0; the number 1 when both are the number 0; the
  number 1 when \<open>L'\<close> is the number 1; \<open>L'\<close> when \<open>R'\<close> is the number 1; and the number
  1 when \<open>R'\<close> is the number 0.
\<close>

theorem Simplify_power_rules:
  assumes "\<not> is_ErrorNode (Simplify c L)" and "\<not> is_ErrorNode (Simplify c R)"
  shows
    "(Simplify c L = NumberNode (Finite 0) \<and> Simplify c R \<noteq> NumberNode (Finite 0)
        \<longrightarrow> Simplify c (OperatorNode ''^'' L R) = NumberNode (Finite 0))
     \<and> (Simplify c L = NumberNode (Finite 0) \<and> Simplify c R = NumberNode (Finite 0)
        \<longrightarrow> Simplify c (OperatorNode ''^'' L R) = NumberNode (Finite 1))
     \<and> (Simplify c L = NumberNode (Finite 1)
        \<longrightarrow> Simplify c (OperatorNode ''^'' L R) = NumberNode (Finite 1))
     \<and> (Simplify c R = NumberNode (Finite 1)
        \<longrightarrow> Simplify c (OperatorNode ''^'' L R) = Simplify c L)
     \<and> (Simplify c R = NumberNode (Finite 0)
        \<longrightarrow> Simplify c (OperatorNode ''^'' L R) = NumberNode (Finite 1))"
  using assms
  by (cases "Simplify c L"; cases "Simplify c R")
     (auto simp: Operator_Simplify_def Simplify_power_def Let_def)

theorem Simplify_power_rules_witness:
  "Simplify initial_Configuration (OperatorNode ''^'' (NumberNode (Finite 0)) (VariableNode ''y''))
     = NumberNode (Finite 0)
   \<and> Simplify initial_Configuration (OperatorNode ''^'' (NumberNode (Finite 0)) (NumberNode (Finite 0)))
     = NumberNode (Finite 1)
   \<and> Simplify initial_Configuration (OperatorNode ''^'' (NumberNode (Finite 1)) (VariableNode ''y''))
     = NumberNode (Finite 1)
   \<and> Simplify initial_Configuration (OperatorNode ''^'' (VariableNode ''x'') (NumberNode (Finite 1)))
     = VariableNode ''x''
   \<and> Simplify initial_Configuration (OperatorNode ''^'' (VariableNode ''x'') (NumberNode (Finite 0)))
     = NumberNode (Finite 1)"
  using
    Simplify_power_rules [of initial_Configuration "NumberNode (Finite 0)" "VariableNode ''y''"]
    Simplify_power_rules [of initial_Configuration "NumberNode (Finite 0)" "NumberNode (Finite 0)"]
    Simplify_power_rules [of initial_Configuration "NumberNode (Finite 1)" "VariableNode ''y''"]
    Simplify_power_rules [of initial_Configuration "VariableNode ''x''" "NumberNode (Finite 1)"]
    Simplify_power_rules [of initial_Configuration "VariableNode ''x''" "NumberNode (Finite 0)"]
  by (simp add: is_ErrorNode_def)

subsection \<open>The tokenizer\<close>

text \<open>
  The tokens do not depend on the order in which the pattern lists the identifiers of
  the registry, when these are made of word characters: between two \<open>\b\<close> only the
  whole run of word characters can match.
\<close>

lemma name_matches_word:
  assumes "name_matches before s name" and "\<forall>ch \<in> set name. is_word_char ch"
  shows "name = takeWhile is_word_char s"
proof -
  from assms(1) have ne: "name \<noteq> []" and pre: "take (length name) s = name"
    and bnd: "is_word_char (last name) \<noteq> next_is_word (drop (length name) s)"
    by (simp_all add: name_matches_def)
  from ne assms(2) have "is_word_char (last name)" by simp
  with bnd have stop: "takeWhile is_word_char (drop (length name) s) = []"
    by (cases "drop (length name) s") (auto simp: next_is_word_def)
  have "s = name @ drop (length name) s"
    using pre append_take_drop_id [of "length name" s] by simp
  then have "takeWhile is_word_char s = takeWhile is_word_char (name @ drop (length name) s)"
    by simp
  also have "\<dots> = name"
    using assms(2) stop by (simp add: takeWhile_append2)
  finally show ?thesis by simp
qed

lemma find_unique:
  assumes "\<forall>n \<in> set names. P n \<longrightarrow> n = w"
  shows "find P names = (if w \<in> set names \<and> P w then Some w else None)"
  using assms
proof (induction names)
  case Nil
  show ?case by simp
next
  case (Cons a names)
  then have IH: "find P names = (if w \<in> set names \<and> P w then Some w else None)"
    by simp
  show ?case
  proof (cases "P a")
    case True
    with Cons.prems have "a = w" by simp
    with True show ?thesis by simp
  next
    case False
    show ?thesis
    proof (cases "w = a")
      case True
      with False IH show ?thesis by simp
    next
      case w: False
      with False IH show ?thesis by simp
    qed
  qed
qed

lemma match_names_word:
  assumes "\<forall>n \<in> set names. \<forall>ch \<in> set n. is_word_char ch"
  shows "match_names names before s
         = (if takeWhile is_word_char s \<in> set names
               \<and> name_matches before s (takeWhile is_word_char s)
            then Some (length (takeWhile is_word_char s)) else None)"
proof -
  have "\<forall>n \<in> set names. name_matches before s n \<longrightarrow> n = takeWhile is_word_char s"
    using assms name_matches_word by blast
  from find_unique [OF this] show ?thesis
    by (simp add: match_names_def)
qed

lemma match_names_set:
  assumes "set names = set names'" and "\<forall>n \<in> set names. \<forall>ch \<in> set n. is_word_char ch"
  shows "match_names names = match_names names'"
  using assms by (intro ext) (simp add: match_names_word)


lemma regex_matches_cong:
  assumes "match_token fs cs = match_token fs' cs'"
  shows "regex_matches fs cs b s = regex_matches fs' cs' b s"
proof (induction s arbitrary: b rule: length_induct)
  case (1 s)
  show ?case
  proof (cases s)
    case Nil
    then show ?thesis by simp
  next
    case (Cons ch rest)
    have short: "length (drop n rest) < length s" for n
      using Cons by simp
    show ?thesis
    proof (cases "match_token fs' cs' b (ch # rest)")
      case None
      with Cons assms 1 show ?thesis by simp
    next
      case (Some n)
      with Cons assms 1 [rule_format, OF short] show ?thesis by simp
    qed
  qed
qed

lemma Tokenize_loop_cong:
  assumes "classify fs cs = classify fs' cs'"
  shows "Tokenize_loop fs cs i ins ts ms = Tokenize_loop fs' cs' i ins ts ms"
proof (induction ms arbitrary: i ins ts rule: length_induct)
  case (1 ms)
  show ?case
  proof (cases ms)
    case Nil
    then show ?thesis by simp
  next
    case (Cons val rest)
    have whole: "Tokenize_loop fs cs j b us rest = Tokenize_loop fs' cs' j b us rest" for j b us
      using 1 [rule_format, of rest] Cons by simp
    have tail: "(case rest of [] \<Rightarrow> ts | nextValue # rest' \<Rightarrow>
                   Tokenize_loop fs cs j b (ts @ [token Number (val @ nextValue)]) rest')
                = (case rest of [] \<Rightarrow> ts | nextValue # rest' \<Rightarrow>
                   Tokenize_loop fs' cs' j b (ts @ [token Number (val @ nextValue)]) rest')"
      for j b
    proof (cases rest)
      case Nil
      then show ?thesis by simp
    next
      case inner: (Cons nextValue rest')
      have "Tokenize_loop fs cs j b us rest' = Tokenize_loop fs' cs' j b us rest'" for us
        using 1 [rule_format, of rest'] Cons inner by simp
      with inner show ?thesis by simp
    qed
    show ?thesis
      unfolding Cons
      by (simp only: Tokenize_loop.simps(2) Let_def assms whole tail)
  qed
qed

lemma Tokenize_order_of_identifiers:
  assumes "set (GetFunctionIDs c) = set (GetFunctionIDs c')"
    and "set (GetConstantNames c) = set (GetConstantNames c')"
    and "\<forall>n \<in> set (GetFunctionIDs c) \<union> set (GetConstantNames c). \<forall>ch \<in> set n. is_word_char ch"
  shows "Tokenize c input = Tokenize c' input"
proof -
  have f: "match_names (GetFunctionIDs c) = match_names (GetFunctionIDs c')"
    using assms by (intro match_names_set) auto
  have k: "match_names (GetConstantNames c) = match_names (GetConstantNames c')"
    using assms by (intro match_names_set) auto
  have m: "match_token (GetFunctionIDs c) (GetConstantNames c)
           = match_token (GetFunctionIDs c') (GetConstantNames c')"
    by (intro ext) (simp add: match_token_def f k)
  have cl: "classify (GetFunctionIDs c) (GetConstantNames c)
           = classify (GetFunctionIDs c') (GetConstantNames c')"
    by (intro ext) (simp add: classify_def f k)
  show ?thesis
    by (simp add: Tokenize_def regex_matches_cong [OF m] Tokenize_loop_cong [OF cl])
qed

lemma Init_FunctionIDs:
  "GetFunctionIDs (Init initial_Configuration)
   = [''sin'', ''cos'', ''tan'', ''cot'', ''sec'', ''csc'', ''sinh'', ''cosh'', ''tanh'',
      ''coth'', ''sech'', ''csch'', ''log'', ''ln'', ''sqrt'', ''abs'']"
  by (simp add: registry_defs GetFunctionIDs_def)

lemma Init_ConstantNames: "GetConstantNames (Init initial_Configuration) = [''e'', ''pi'']"
  by (simp add: registry_defs GetConstantNames_def)

lemma Tokenize_leading_sign:
  "Tokenize (Init initial_Configuration) ''-3+x''
   = [token Number ''-3'', token Operator ''+'', token Variable ''x'']"
  unfolding Tokenize_def Init_FunctionIDs Init_ConstantNames by code_simp

lemma Tokenize_sign_after_operator:
  "Tokenize (Init initial_Configuration) ''a*- 3''
   = [token Variable ''a'', token Operator ''*'', token Number ''-3'']"
  unfolding Tokenize_def Init_FunctionIDs Init_ConstantNames by code_simp

lemma Tokenize_minus_before_variable:
  "Tokenize (Init initial_Configuration) ''a-b''
   = [token Variable ''a'', token Operator ''-'', token Variable ''b'']"
  unfolding Tokenize_def Init_FunctionIDs Init_ConstantNames by code_simp

text \<open>
  Claim C4. \<open>Tokenize("-3+x")\<close> is \<open>Number "-3"\<close>, \<open>Operator "+"\<close>, \<open>Variable "x"\<close>
  (\<open>Tokenize_leading_sign\<close>), and \<open>Tokenize("a-3")\<close> is \<open>Variable "a"\<close>,
  \<open>Operator "-"\<close>, \<open>Number "3"\<close>: a minus is part of the numeral only after an operator,
  an opening parenthesis, a modulus delimiter or at the start. In the code the pattern
  of a number starts with an optional minus and is tried before the pattern of an
  operator, so a minus before a digit is always part of the numeral, and
  \<open>IsNegativeSign\<close> is never asked: \<open>Tokenize("a-3")\<close> is \<open>Variable "a"\<close>,
  \<open>Number "-3"\<close>.
\<close>

theorem Tokenize_minus_after_variable:
  "Tokenize (Init initial_Configuration) ''a-3'' = [token Variable ''a'', token Number ''-3'']
   \<and> Tokenize (Init initial_Configuration) ''a-3''
     \<noteq> [token Variable ''a'', token Operator ''-'', token Number ''3'']"
proof -
  have "Tokenize (Init initial_Configuration) ''a-3''
        = [token Variable ''a'', token Number ''-3'']"
    unfolding Tokenize_def Init_FunctionIDs Init_ConstantNames by code_simp
  then show ?thesis by simp
qed

subsection \<open>The parser\<close>

text \<open>A call that did not run out of fuel returns the same with more fuel.\<close>

lemma unless_error_more_fuel:
  assumes "unless_error r k \<noteq> Inl OutOfFuel"
    and "r \<noteq> Inl OutOfFuel \<Longrightarrow> r' = r"
    and "\<And>n p. k n p \<noteq> Inl OutOfFuel \<Longrightarrow> k' n p = k n p"
  shows "unless_error r' k' = unless_error r k"
  using assms by (auto simp: unless_error_def split: sum.splits if_splits)

lemma bracket_more_fuel:
  assumes "(case r of Inl e \<Rightarrow> Inl e | Inr (a, p) \<Rightarrow> f a p) \<noteq> Inl OutOfFuel"
    and "r \<noteq> Inl OutOfFuel \<Longrightarrow> r' = r"
  shows "(case r' of Inl e \<Rightarrow> Inl e | Inr (a, p) \<Rightarrow> f a p)
         = (case r of Inl e \<Rightarrow> Inl e | Inr (a, p) \<Rightarrow> f a p)"
  using assms by (auto split: sum.splits)

lemma Parser_run_more_fuel:
  "Parser_run n c ts call \<noteq> Inl OutOfFuel
   \<Longrightarrow> Parser_run (n + k) c ts call = Parser_run n c ts call"
proof (induction n arbitrary: call)
  case 0
  then show ?case by simp
next
  case (Suc n)
  note IH = Suc.IH
  show ?case
  proof (cases call)
    case (Call_ParseEquals pos)
    with Suc.prems show ?thesis
      by (auto intro!: unless_error_more_fuel IH)
  next
    case (Call_ParseEquals_loop left pos)
    with Suc.prems show ?thesis
      by (auto intro!: unless_error_more_fuel IH split: option.splits)
  next
    case (Call_ParseAdditionSubtraction pos)
    with Suc.prems show ?thesis
      by (auto intro!: unless_error_more_fuel IH)
  next
    case (Call_ParseAdditionSubtraction_loop left pos)
    with Suc.prems show ?thesis
      by (auto intro!: unless_error_more_fuel IH split: option.splits)
  next
    case (Call_ParseMultiplicationDivision pos)
    with Suc.prems show ?thesis
      by (auto intro!: unless_error_more_fuel IH)
  next
    case (Call_ParseMultiplicationDivision_loop left pos)
    with Suc.prems show ?thesis
      by (auto intro!: unless_error_more_fuel IH split: option.splits)
  next
    case (Call_ParseExponentiation pos)
    with Suc.prems show ?thesis
      by (auto intro!: unless_error_more_fuel IH)
  next
    case (Call_ParseExponentiation_loop left pos)
    with Suc.prems show ?thesis
      by (auto intro!: unless_error_more_fuel IH split: option.splits)
  next
    case (Call_ParsePrimary pos)
    with Suc.prems show ?thesis
      by (simp split: option.splits if_splits) (auto intro!: bracket_more_fuel IH)
  qed
qed

lemma ParseExpression_more_fuel:
  assumes "ParseExpression n c ts = Inr node"
  shows "ParseExpression (n + k) c ts = Inr node"
proof -
  from assms have "Parser_run n c ts (Call_ParseEquals 0) \<noteq> Inl OutOfFuel"
    by (auto simp: ParseExpression_def)
  then have "Parser_run (n + k) c ts (Call_ParseEquals 0) = Parser_run n c ts (Call_ParseEquals 0)"
    by (rule Parser_run_more_fuel)
  with assms show ?thesis
    by (simp add: ParseExpression_def)
qed

lemmas parse_eval =
  ParseExpression_def eval_nat_numeral Peek_def token_def unless_error_def is_ErrorNode_def
  closing_def







subsection \<open>The modulus\<close>

lemma Parse_modulus_tokens:
  "ParseExpression 30 (Init initial_Configuration)
     [token ModulusDelimiter ''|'', token Number ''-5'', token ModulusDelimiter ''|'']
   = Inr (FunctionNode ModulusFunction (NumberNode (Finite (- 5))))"
  by (simp add: parse_eval new_FunctionNode_def registry_defs stod_def is_digit_def
      digits_value_def digit_value_def)

lemma Modulus_of_minus_five:
  "Evaluate env (FunctionNode ModulusFunction (NumberNode (Finite (- 5)))) = Some (Finite 5)
   \<and> Simplify c (FunctionNode ModulusFunction (NumberNode (Finite (- 5)))) = NumberNode (Finite 5)"
  by (simp add: is_ErrorNode_def c_abs_def int_cast_def)

lemma Tokenize_modulus:
  "Tokenize (Init initial_Configuration) ''|-5|''
   = [token Unknown ''|'', token Number ''-5'', token Unknown ''|'']"
  unfolding Tokenize_def Init_FunctionIDs Init_ConstantNames by code_simp

lemma Parse_unknown_tokens:
  "ParseExpression 30 c [token Unknown ''|'', token Number ''-5'', token Unknown ''|'']
   = Inr (ErrorNode ''unexpected token | (type = 8)'')"
  by (simp add: parse_eval)

text \<open>
  Claim C5. The text \<open>|-5|\<close> parses to \<open>abs\<close> applied to the number \<open>-5\<close>, which
  evaluates to 5 and simplifies to the number 5. The last two hold of that tree
  (\<open>Modulus_of_minus_five\<close>), and the parser builds it from \<open>ModulusDelimiter\<close> tokens
  (\<open>Parse_modulus_tokens\<close>). The tokenizer never makes such a token: the test that
  would classify \<open>|\<close> repeats the test for a parenthesis, so \<open>|\<close> is an \<open>Unknown\<close>
  token and the parser returns an \<open>ErrorNode\<close>, whose value is NaN and which
  simplifies to itself.
\<close>

theorem Modulus_text_is_an_error:
  "Tokenize (Init initial_Configuration) ''|-5|''
   = [token Unknown ''|'', token Number ''-5'', token Unknown ''|'']
   \<and> ParseExpression (30 + n) (Init initial_Configuration)
       (Tokenize (Init initial_Configuration) ''|-5|'')
     = Inr (ErrorNode ''unexpected token | (type = 8)'')
   \<and> Evaluate env (ErrorNode ''unexpected token | (type = 8)'') = Some NaN
   \<and> Simplify (Init initial_Configuration) (ErrorNode ''unexpected token | (type = 8)'')
     = ErrorNode ''unexpected token | (type = 8)''"
  unfolding Tokenize_modulus
  using Parse_unknown_tokens [THEN ParseExpression_more_fuel]
  by simp

subsection \<open>Error absorption\<close>

lemma Tokenize_nested_call:
  "Tokenize (Init initial_Configuration) ''sin(sin())''
   = [token Function ''sin'', token Parenthesis ''('', token Function ''sin'',
      token Parenthesis ''('', token Parenthesis '')'', token Parenthesis '')'']"
  unfolding Tokenize_def Init_FunctionIDs Init_ConstantNames by code_simp

lemma Parse_nested_call:
  "ParseExpression (30 + n) (Init initial_Configuration)
     (Tokenize (Init initial_Configuration) ''sin(sin())'')
   = Inr (FunctionNode SineFunction
            (FunctionNode SineFunction (ErrorNode ''unexpected token ) (type = 5)'')))"
proof -
  have "ParseExpression 30 (Init initial_Configuration)
          [token Function ''sin'', token Parenthesis ''('', token Function ''sin'',
           token Parenthesis ''('', token Parenthesis '')'', token Parenthesis '')'']
        = Inr (FunctionNode SineFunction
                 (FunctionNode SineFunction (ErrorNode ''unexpected token ) (type = 5)'')))"
    by (simp add: parse_eval new_FunctionNode_def registry_defs)
  then show ?thesis
    unfolding Tokenize_nested_call by (rule ParseExpression_more_fuel)
qed

lemma exposed_Error_absorbed:
  "exposed_Error T \<Longrightarrow> is_ErrorNode (Differentiate c v T) \<and> is_ErrorNode (Simplify c T)"
proof (induction T)
  case (OperatorNode op l r)
  then show ?case by (auto simp: Let_def)
next
  case (EqualsNode l r)
  then show ?case by (auto simp: Let_def)
next
  case (FunctionNode f a)
  then show ?case by (cases a) (auto simp: is_ErrorNode_def)
qed (simp_all add: is_ErrorNode_def)

lemma Evaluate_null_function: "Evaluate env (NullFunctionNode m) = None"
  by simp

lemma Evaluate_one_to_the_error:
  "Evaluate env
     (OperatorNode ''^'' (NumberNode (Finite 1))
        (OperatorNode ''+'' (ErrorNode m) (NumberNode (Finite 0))))
   = Some (Finite 1)"
  by (simp add: apply_operator_def)

text \<open>
  Claim C1. A tree that contains an \<open>ErrorNode\<close> differentiates to an \<open>ErrorNode\<close>,
  simplifies to an \<open>ErrorNode\<close> and evaluates to NaN. The members of \<open>OperatorNode\<close>
  and \<open>EqualsNode\<close> test what their children return, so an error that is not below the
  argument of a function is passed up (\<open>exposed_Error_absorbed\<close>); the members of the
  dispatch entries do not test what \<open>argument->Differentiate\<close> and
  \<open>argument->Simplify\<close> return. The tree below is the one the parser builds from \<open>sin(sin())\<close>
  (\<open>Parse_nested_call\<close>): its derivative is a product and its simplified form is a
  \<open>FunctionNode\<close>.
\<close>

theorem Error_below_two_functions:
  "contains_Error (FunctionNode SineFunction (FunctionNode SineFunction (ErrorNode m)))
   \<and> Differentiate (Init initial_Configuration) ''x''
       (FunctionNode SineFunction (FunctionNode SineFunction (ErrorNode m)))
     = OperatorNode ''*'' (ErrorNode m)
         (FunctionNode CosineFunction (FunctionNode SineFunction (ErrorNode m)))
   \<and> Simplify (Init initial_Configuration)
       (FunctionNode SineFunction (FunctionNode SineFunction (ErrorNode m)))
     = FunctionNode SineFunction (ErrorNode m)"
  by (simp add: is_ErrorNode_def new_FunctionNode_def number_to_def registry_defs)


subsection \<open>Simplify and Evaluate\<close>




















































text \<open>
  The rules \<open>0/R = 0\<close> and \<open>0*R = 0\<close> change a value that is not finite, the
  distribution of a factor over a sum overflows where the product does not, and
  \<open>Simplify\<close> takes the magnitude where \<open>Exec\<close> takes \<open>abs\<close> of an \<open>int\<close>.
\<close>

lemma Simplify_changes_zero_quotient:
  "Evaluate env (OperatorNode ''/'' (NumberNode (Finite 0)) (NumberNode (Finite 0))) = Some NaN
   \<and> Evaluate env
       (Simplify c (OperatorNode ''/'' (NumberNode (Finite 0)) (NumberNode (Finite 0))))
     = Some (Finite 0)"
  by (simp add: apply_operator_def Operator_Simplify_def Simplify_divide_def is_ErrorNode_def
      inf_of_sign_def)

lemma Simplify_changes_zero_product:
  "Evaluate [''x'' \<mapsto> Finite 0]
     (OperatorNode ''*'' (NumberNode (Finite 0))
        (OperatorNode ''/'' (NumberNode (Finite 1)) (VariableNode ''x'')))
   = Some NaN
   \<and> Evaluate [''x'' \<mapsto> Finite 0]
       (Simplify c
          (OperatorNode ''*'' (NumberNode (Finite 0))
             (OperatorNode ''/'' (NumberNode (Finite 1)) (VariableNode ''x''))))
     = Some (Finite 0)"
  by (simp add: apply_operator_def Operator_Simplify_def Simplify_divide_def
      Simplify_times_def is_ErrorNode_def inf_of_sign_def)

lemma Simplify_overflows_distributing:
  "Evaluate [''x'' \<mapsto> Finite (10 ^ 200), ''y'' \<mapsto> Finite (10 ^ 200)]
     (OperatorNode ''*'' (NumberNode (Finite (10 ^ 200)))
        (OperatorNode ''-'' (VariableNode ''x'') (VariableNode ''y'')))
   = Some (Finite 0)
   \<and> Evaluate [''x'' \<mapsto> Finite (10 ^ 200), ''y'' \<mapsto> Finite (10 ^ 200)]
       (Simplify c
          (OperatorNode ''*'' (NumberNode (Finite (10 ^ 200)))
             (OperatorNode ''-'' (VariableNode ''x'') (VariableNode ''y''))))
     = Some NaN"
  by (simp add: apply_operator_def Operator_Simplify_def Simplify_minus_def Simplify_times_def
      distribute_right_def is_sum_def is_factor_def same_name_def is_ErrorNode_def dsub_def Let_def
      overflow_def DBL_MAX_def)

lemma Simplify_changes_truncated_modulus:
  "Evaluate env (FunctionNode ModulusFunction (NumberNode (Finite (- 5 / 2)))) = Some (Finite 2)
   \<and> Simplify c (FunctionNode ModulusFunction (NumberNode (Finite (- 5 / 2))))
     = NumberNode (Finite (5 / 2))"
  by (simp add: is_ErrorNode_def c_abs_def int_cast_def)



end
